theory Spec2Isabelle
  imports Main
begin

section \<open>Python values used by enrich\_data.py\<close>

text \<open>
  Strings are lists of bytes (UTF-8); the two non-ASCII literals of the source are written
  out as their three bytes. The condition language and every identifier of the reference
  tables are ASCII, and on ASCII the functions below are Python's \<open>str\<close> methods.
\<close>

datatype error = ValueError | IndexError | OverflowError | ZeroDivisionError

definition bind :: "error + 'a \<Rightarrow> ('a \<Rightarrow> error + 'b) \<Rightarrow> error + 'b" where
  "bind r f = (case r of Inl e \<Rightarrow> Inl e | Inr x \<Rightarrow> f x)"

fun map_err :: "('a \<Rightarrow> error + 'b) \<Rightarrow> 'a list \<Rightarrow> error + 'b list" where
  "map_err f [] = Inr []"
| "map_err f (x # xs) = bind (f x) (\<lambda>y. bind (map_err f xs) (\<lambda>ys. Inr (y # ys)))"

subsection \<open>str(int) and int(str)\<close>

definition digit_char :: "nat \<Rightarrow> char" where
  "digit_char d = ''0123456789'' ! d"

fun str_nat :: "nat \<Rightarrow> string" where
  "str_nat n = (if n < 10 then [digit_char n] else str_nat (n div 10) @ [digit_char (n mod 10)])"

declare str_nat.simps [simp del]

definition str_int :: "int \<Rightarrow> string" where
  "str_int i = (if i < 0 then CHR ''-'' # str_nat (nat (- i)) else str_nat (nat i))"

definition is_digit :: "char \<Rightarrow> bool" where
  "is_digit c = (c \<in> set ''0123456789'')"

definition digit_val :: "char \<Rightarrow> nat" where
  "digit_val c = length (takeWhile (\<lambda>d. d \<noteq> c) ''0123456789'')"

definition is_space :: "char \<Rightarrow> bool" where
  "is_space c = (c \<in> set [CHR 0x09, CHR 0x0A, CHR 0x0B, CHR 0x0C, CHR 0x0D,
                            CHR 0x1C, CHR 0x1D, CHR 0x1E, CHR 0x1F, CHR 0x20])"

definition strip :: "string \<Rightarrow> string" where
  "strip s = rev (dropWhile is_space (rev (dropWhile is_space s)))"

text \<open>
  \<open>int(s)\<close> in base 10: surrounding ASCII whitespace (a smaller set than the one
  \<open>str.strip\<close> removes), one optional sign, then digits, where a single underscore may stand
  between two digits; anything else raises ValueError.
\<close>

fun digits_ok :: "bool \<Rightarrow> string \<Rightarrow> bool" where
  "digits_ok after_digit [] = after_digit"
| "digits_ok after_digit (c # cs) =
     (if is_digit c then digits_ok True cs
      else if c = CHR ''_'' \<and> after_digit then digits_ok False cs
      else False)"

fun digits_value :: "nat \<Rightarrow> string \<Rightarrow> nat" where
  "digits_value acc [] = acc"
| "digits_value acc (c # cs) =
     (if c = CHR ''_'' then digits_value acc cs else digits_value (10 * acc + digit_val c) cs)"

definition is_ascii_space :: "char \<Rightarrow> bool" where
  "is_ascii_space c = (c \<in> set [CHR 0x09, CHR 0x0A, CHR 0x0B, CHR 0x0C, CHR 0x0D, CHR 0x20])"

definition py_int :: "string \<Rightarrow> error + int" where
  "py_int s =
     (let t = rev (dropWhile is_ascii_space (rev (dropWhile is_ascii_space s)));
          neg = (t \<noteq> [] \<and> hd t = CHR ''-'');
          body = (if t \<noteq> [] \<and> (hd t = CHR ''-'' \<or> hd t = CHR ''+'') then tl t else t)
      in if digits_ok False body
         then Inr (if neg then - int (digits_value 0 body) else int (digits_value 0 body))
         else Inl ValueError)"

subsection \<open>str methods\<close>

definition startswith :: "string \<Rightarrow> string \<Rightarrow> bool" where
  "startswith s p = (take (length p) s = p)"

definition endswith :: "string \<Rightarrow> string \<Rightarrow> bool" where
  "endswith s p = (length p \<le> length s \<and> drop (length s - length p) s = p)"

text \<open>\<open>s.split(sep, 1)\<close> when \<open>sep in s\<close>: the text before and after the first occurrence.\<close>

fun split_first :: "string \<Rightarrow> string \<Rightarrow> (string \<times> string) option" where
  "split_first sep [] = (if sep = [] then Some ([], []) else None)"
| "split_first sep (c # cs) =
     (if startswith (c # cs) sep then Some ([], drop (length sep) (c # cs))
      else map_option (\<lambda>(a, b). (c # a, b)) (split_first sep cs))"

definition contains :: "string \<Rightarrow> string \<Rightarrow> bool" where
  "contains sep s = (split_first sep s \<noteq> None)"

text \<open>\<open>s.split(c)\<close> for a one-character separator: always at least one piece.\<close>

fun split_on :: "char \<Rightarrow> string \<Rightarrow> string list" where
  "split_on sep [] = [[]]"
| "split_on sep (c # cs) =
     (if c = sep then [] # split_on sep cs
      else (case split_on sep cs of
              [] \<Rightarrow> [[c]]
            | p # ps \<Rightarrow> (c # p) # ps))"

text \<open>
  \<open>s.replace(old, new)\<close> for a non-empty \<open>old\<close>, left to right without overlap; the counter
  is the number of characters of a match still to be skipped.
\<close>

fun replace_from :: "string \<Rightarrow> string \<Rightarrow> nat \<Rightarrow> string \<Rightarrow> string" where
  "replace_from old new k [] = []"
| "replace_from old new (Suc k) (c # cs) = replace_from old new k cs"
| "replace_from old new 0 (c # cs) =
     (if startswith (c # cs) old then new @ replace_from old new (length old - 1) cs
      else c # replace_from old new 0 cs)"

definition replace :: "string \<Rightarrow> string \<Rightarrow> string \<Rightarrow> string" where
  "replace s old new = replace_from old new 0 s"

definition lower_letters :: string where
  "lower_letters = ''abcdefghijklmnopqrstuvwxyz''"

definition upper_letters :: string where
  "upper_letters = ''ABCDEFGHIJKLMNOPQRSTUVWXYZ''"

definition is_lower :: "char \<Rightarrow> bool" where
  "is_lower c = (c \<in> set lower_letters)"

definition is_upper :: "char \<Rightarrow> bool" where
  "is_upper c = (c \<in> set upper_letters)"

definition to_upper :: "char \<Rightarrow> char" where
  "to_upper c = (case map_of (zip lower_letters upper_letters) c of Some u \<Rightarrow> u | None \<Rightarrow> c)"

definition to_lower :: "char \<Rightarrow> char" where
  "to_lower c = (case map_of (zip upper_letters lower_letters) c of Some l \<Rightarrow> l | None \<Rightarrow> c)"

text \<open>\<open>s.title()\<close>: a letter is upper-cased after a non-letter and lower-cased after a letter.\<close>

fun title_from :: "bool \<Rightarrow> string \<Rightarrow> string" where
  "title_from prev_cased [] = []"
| "title_from prev_cased (c # cs) =
     (if is_lower c \<or> is_upper c
      then (if prev_cased then to_lower c else to_upper c) # title_from True cs
      else c # title_from False cs)"

definition title :: "string \<Rightarrow> string" where
  "title s = title_from False s"

text \<open>\<open>sep.join(parts)\<close>.\<close>

fun join :: "string \<Rightarrow> string list \<Rightarrow> string" where
  "join sep [] = []"
| "join sep [p] = p"
| "join sep (p # q # ps) = p @ sep @ join sep (q # ps)"

section \<open>Condition parser\<close>

definition phase_names :: "string \<rightharpoonup> string" where
  "phase_names = [''0'' \<mapsto> ''Opening Leg'', ''1'' \<mapsto> ''Middle Leg'', ''2'' \<mapsto> ''Final Leg'']"

definition running_styles :: "string \<rightharpoonup> string" where
  "running_styles = [''1'' \<mapsto> ''Front Runner'', ''2'' \<mapsto> ''Pace Chaser'',
                     ''3'' \<mapsto> ''Late Surger'', ''4'' \<mapsto> ''End Closer'']"

definition ground_types :: "string \<rightharpoonup> string" where
  "ground_types = [''1'' \<mapsto> ''Turf'', ''2'' \<mapsto> ''Dirt'']"

definition distance_types :: "string \<rightharpoonup> string" where
  "distance_types = [''1'' \<mapsto> ''Sprint'', ''2'' \<mapsto> ''Mile'', ''3'' \<mapsto> ''Medium'', ''4'' \<mapsto> ''Long'']"

definition get_default :: "('k \<rightharpoonup> 'v) \<Rightarrow> 'k \<Rightarrow> 'v \<Rightarrow> 'v" where
  "get_default m k d = (case m k of None \<Rightarrow> d | Some v \<Rightarrow> v)"

definition le_sign :: string where
  "le_sign = [CHR 0xE2, CHR 0x89, CHR 0xA4]"

definition ge_sign :: string where
  "ge_sign = [CHR 0xE2, CHR 0x89, CHR 0xA5]"

text \<open>
  The body of the operator loop once \<open>op in term\<close> holds and the term is split into key and
  value. \<open>Some text\<close> is \<open>parts.append(text)\<close> followed by \<open>break\<close>; \<open>None\<close> is the
  \<open>continue\<close> of the \<open>always\<close> branch, which goes on with the next operator of the inner loop.
\<close>

definition render_clause :: "string \<Rightarrow> string \<Rightarrow> string \<Rightarrow> error + string option" where
  "render_clause op key val =
     (if key = ''phase'' then
        (let value_name = get_default phase_names val (''Phase '' @ val)
         in if op = ''=='' \<or> op = ''='' then Inr (Some value_name)
            else if op = ''>='' then Inr (Some (value_name @ ''+''))
            else Inr (Some (''phase'' @ op @ val)))
      else if key = ''distance_rate'' then
        (if op = ''>='' then Inr (Some (''After '' @ val @ ''% of race''))
         else if op = ''<='' then Inr (Some (''Before '' @ val @ ''% of race''))
         else Inr (Some (val @ ''% of race'')))
      else if key = ''order'' then
        (if op = ''<='' then Inr (Some (''Top '' @ val))
         else if op = ''>='' then Inr (Some (''Position '' @ val @ ''+''))
         else Inr (Some (''Position '' @ val)))
      else if key = ''order_rate'' then
        (if op = ''<='' then Inr (Some (''Top '' @ val @ ''%''))
         else if op = ''>='' then
           bind (py_int val) (\<lambda>n. Inr (Some (''Back '' @ str_int (100 - n) @ ''%'')))
         else Inr (Some (val @ ''% of field'')))
      else if key = ''running_style'' then
        Inr (Some (get_default running_styles val (''Style '' @ val)))
      else if key = ''corner'' then
        (if val = ''0'' then Inr (Some ''Not in corner'') else Inr (Some (''Corner '' @ val)))
      else if key = ''is_lastspurt'' \<and> val = ''1'' then Inr (Some ''Last Spurt'')
      else if key = ''is_finalcorner'' \<and> val = ''1'' then Inr (Some ''Final Corner'')
      else if key = ''hp_per'' then
        (if op = ''<='' then Inr (Some (''HP '' @ le_sign @ val @ ''%''))
         else if op = ''>='' then Inr (Some (''HP '' @ ge_sign @ val @ ''%''))
         else Inr (Some (''HP '' @ val @ ''%'')))
      else if key = ''activate_count_heal'' then
        Inr (Some (''After '' @ val @ '' recovery skill(s)''))
      else if key = ''ground_type'' then
        Inr (Some (get_default ground_types val (''Ground '' @ val)))
      else if key = ''distance_type'' then
        Inr (Some (get_default distance_types val (''Distance '' @ val)))
      else if endswith key ''_random'' \<and> val = ''1'' then
        Inr (Some (''Random in '' @ title (replace (replace key ''_random'' '''') ''_'' '' '')))
      else if key = ''always'' then Inr None
      else Inr (Some (title (replace key ''_'' '' '') @ '' '' @ op @ '' '' @ val)))"

definition operators :: "string list" where
  "operators = [''>='', ''<='', ''=='', ''!='', ''>'', ''<'', ''='']"

text \<open>
  The inner \<open>for op in [...]\<close> with its \<open>else\<close>: the result is the one string the term adds
  to \<open>parts\<close>. When the operators are exhausted without a \<open>break\<close> the \<open>else\<close> branch adds
  the title-cased term.
\<close>

fun render_term :: "string list \<Rightarrow> string \<Rightarrow> error + string" where
  "render_term [] term = Inr (title (replace term ''_'' '' ''))"
| "render_term (op # ops) term =
     (case split_first op term of
        None \<Rightarrow> render_term ops term
      | Some (k, v) \<Rightarrow>
          bind (render_clause op (strip k) (strip v))
            (\<lambda>r. case r of Some text \<Rightarrow> Inr text | None \<Rightarrow> render_term ops term))"

text \<open>The outer loop: blank terms are skipped, every other term adds one part.\<close>

fun render_terms :: "string list \<Rightarrow> error + string list" where
  "render_terms [] = Inr []"
| "render_terms (t # ts) =
     (if strip t = [] then render_terms ts
      else bind (render_term operators (strip t))
             (\<lambda>p. bind (render_terms ts) (\<lambda>ps. Inr (p # ps))))"

definition parse_condition :: "string \<Rightarrow> error + string" where
  "parse_condition condition =
     (if condition = [] then Inr ''Always''
      else bind (render_terms (split_on CHR ''&'' condition))
             (\<lambda>parts. Inr (if parts \<noteq> [] then join '' & '' parts else ''Always'')))"

section \<open>Floating point: int / int and the \<open>.Nf\<close> format\<close>

text \<open>
  A finite double is a sign, a mantissa and a binary exponent: the value is
  \<open>mantissa * 2 ^ exponent\<close>, negated when the sign is set. \<open>a / b\<close> on two ints is the
  correctly rounded quotient (round to nearest, ties to even, 53 significant bits, quantum
  \<open>2 ^ -1074\<close> in the subnormal range) and raises OverflowError when the rounded quotient
  reaches \<open>2 ^ 1024\<close>. \<open>format(x, '.Nf')\<close> is the correctly rounded decimal with N
  fractional digits, ties to even on the exact binary value; the sign is kept when the
  digits are all zero.
\<close>

datatype pyfloat = PyFloat bool nat int

definition round_half_even :: "nat \<Rightarrow> nat \<Rightarrow> nat" where
  "round_half_even n d =
     (let q = n div d; r = n mod d
      in if 2 * r < d then q
         else if d < 2 * r then q + 1
         else if even q then q else q + 1)"

fun bit_length :: "nat \<Rightarrow> nat" where
  "bit_length n = (if n = 0 then 0 else Suc (bit_length (n div 2)))"

declare bit_length.simps [simp del]

text \<open>\<open>scaled_ge x y k\<close> is \<open>x / y \<ge> 2 ^ k\<close>, in integers.\<close>

definition scaled_ge :: "nat \<Rightarrow> nat \<Rightarrow> int \<Rightarrow> bool" where
  "scaled_ge x y k = (if 0 \<le> k then y * 2 ^ nat k \<le> x else y \<le> x * 2 ^ nat (- k))"

definition py_truediv :: "int \<Rightarrow> int \<Rightarrow> error + pyfloat" where
  "py_truediv a b =
     (if b = 0 then Inl ZeroDivisionError
      else
        let neg = ((a < 0) \<noteq> (b < 0)); x = nat \<bar>a\<bar>; y = nat \<bar>b\<bar>
        in if x = 0 then Inr (PyFloat neg 0 0)
           else
             let k = int (bit_length x) - int (bit_length y);
                 l = (if scaled_ge x y k then k else k - 1);
                 e = max (l - 52) (- 1074);
                 m = (if 0 \<le> e then round_half_even x (y * 2 ^ nat e)
                      else round_half_even (x * 2 ^ nat (- e)) y)
             in if 971 < e \<or> (e = 971 \<and> m = 2 ^ 53) then Inl OverflowError
                else Inr (PyFloat neg m e))"

definition zero_pad :: "nat \<Rightarrow> string \<Rightarrow> string" where
  "zero_pad w s = replicate (w - length s) CHR ''0'' @ s"

fun format_f :: "nat \<Rightarrow> pyfloat \<Rightarrow> string" where
  "format_f p (PyFloat neg m e) =
     (let r = (if 0 \<le> e then m * 2 ^ nat e * 10 ^ p
               else round_half_even (m * 10 ^ p) (2 ^ nat (- e)))
      in (if neg then ''-'' else []) @ str_nat (r div 10 ^ p) @
         (if p = 0 then [] else ''.'' @ zero_pad p (str_nat (r mod 10 ^ p))))"

section \<open>Reference tables\<close>

text \<open>
  The tables are the JSON documents of the data directory, typed as the code reads them.
  A key that \<open>dict.get\<close> may find missing is an optional field; a table that is missing or
  failed to load is the empty map. The skill definitions carry keys the code never reads;
  \<open>other_keys\<close> records whether there are any, since an empty entry is falsy.
\<close>

record effect =
  etype :: "int option"
  modifier :: "int option"

record alternative =
  condition :: "string option"
  baseDuration :: "int option"
  effects :: "effect list option"

record skill_entry =
  rarity :: "int option"
  alternatives :: "alternative list option"
  other_keys :: bool

record uma =
  name :: "string list option"
  outfits :: "(string \<rightharpoonup> string) option"

record support_card_entry =
  sc_name :: "string option"
  sc_title :: "string option"
  sc_chara :: "string option"

record tables =
  skills_global :: "string \<rightharpoonup> string list"
  skills_jp :: "string \<rightharpoonup> string list"
  skill_data :: "string \<rightharpoonup> skill_entry"
  umas_global :: "string \<rightharpoonup> uma"
  umas_full :: "string \<rightharpoonup> uma"
  sparknames :: "string \<rightharpoonup> string"
  racenames :: "string \<rightharpoonup> string"
  outfitnames :: "string \<rightharpoonup> string"
  supportcardnames :: "string \<rightharpoonup> support_card_entry"
  racetitles :: "string \<rightharpoonup> string"
  nicknames :: "string \<rightharpoonup> string"

definition empty_tables :: tables where
  "empty_tables = \<lparr>skills_global = Map.empty, skills_jp = Map.empty, skill_data = Map.empty,
     umas_global = Map.empty, umas_full = Map.empty, sparknames = Map.empty,
     racenames = Map.empty, outfitnames = Map.empty, supportcardnames = Map.empty,
     racetitles = Map.empty, nicknames = Map.empty\<rparr>"

definition or_default :: "'a option \<Rightarrow> 'a \<Rightarrow> 'a" where
  "or_default v d = (case v of None \<Rightarrow> d | Some x \<Rightarrow> x)"

section \<open>Effect formatter\<close>

definition EFFECT_TYPES :: "int \<rightharpoonup> string" where
  "EFFECT_TYPES = [0 \<mapsto> ''No Effect'', 1 \<mapsto> ''Speed +'', 2 \<mapsto> ''Stamina +'', 3 \<mapsto> ''Power +'',
     4 \<mapsto> ''Guts +'', 5 \<mapsto> ''Wit +'', 9 \<mapsto> ''Stamina Recovery'', 10 \<mapsto> ''Start Delay x'',
     14 \<mapsto> ''Set Start Delay'', 21 \<mapsto> ''Current Speed +'',
     22 \<mapsto> ''Current Speed + (w/ decel)'', 27 \<mapsto> ''Target Speed +'',
     28 \<mapsto> ''Lane Move Speed +'', 31 \<mapsto> ''Acceleration +'', 35 \<mapsto> ''Change Lane'',
     37 \<mapsto> ''Activate Random Gold'', 42 \<mapsto> ''Extend Evolved Duration'']"

definition format_effect :: "effect \<Rightarrow> error + string" where
  "format_effect eff =
     (let t = or_default (etype eff) 0;
          m = or_default (modifier eff) 0;
          type_name = get_default EFFECT_TYPES t (''Effect '' @ str_int t)
      in if t \<in> {1, 2, 3, 4, 5} then Inr (type_name @ str_int m)
         else if t = 9 then
           bind (py_truediv m 100) (\<lambda>q. Inr (''Recover '' @ format_f 0 q @ ''% Stamina''))
         else if t \<in> {21, 22, 27} then
           bind (py_truediv m 10000) (\<lambda>speed_val. Inr (type_name @ format_f 2 speed_val @ ''m/s''))
         else if t = 31 then
           bind (py_truediv m 10000) (\<lambda>accel_val. Inr (type_name @ format_f 4 accel_val))
         else if t = 10 then Inr (''Start Delay x'' @ str_int m)
         else Inr (type_name @ '' ('' @ str_int m @ '')''))"

section \<open>Skill classification and details\<close>

definition get_skill_type :: "int \<Rightarrow> effect list \<Rightarrow> string option" where
  "get_skill_type skill_id effs =
     (let sid = str_int skill_id;
          effect_types = map (\<lambda>e. or_default (etype e) 0) effs
      in if \<exists>t \<in> set effect_types. t \<in> {1, 2, 3, 4, 5} then Some ''green''
         else if \<exists>e \<in> set effs. or_default (modifier e) 0 < 0 then Some ''blue''
         else if length sid = 6 \<and> (startswith sid ''10'' \<or> startswith sid ''11'') then Some ''unique''
         else if length sid = 6 \<and> (startswith sid ''90'' \<or> startswith sid ''91'') then Some ''inherited''
         else None)"

record effect_info =
  info_type :: int
  info_type_name :: string
  info_modifier :: int
  info_readable :: string

record skill_details =
  d_rarity :: string
  d_condition :: "string option"
  d_condition_readable :: "string option"
  d_duration_base_ms :: "int option"
  d_duration_per_1000m :: "string option"
  d_effects :: "effect_info list option"
  d_skill_type :: "string option"
  d_summary :: "string option"

definition rarity_names :: "int \<rightharpoonup> string" where
  "rarity_names = [1 \<mapsto> ''White'', 2 \<mapsto> ''White'', 3 \<mapsto> ''White'', 4 \<mapsto> ''Gold'',
     5 \<mapsto> ''Gold'', 6 \<mapsto> ''Unique'']"

definition arrow :: string where
  "arrow = [CHR 0xE2, CHR 0x86, CHR 0x92]"

definition effect_info_of :: "effect \<Rightarrow> error + effect_info" where
  "effect_info_of eff =
     bind (format_effect eff) (\<lambda>readable.
       Inr \<lparr>info_type = or_default (etype eff) 0,
            info_type_name = get_default EFFECT_TYPES (or_default (etype eff) 0) ''Unknown'',
            info_modifier = or_default (modifier eff) 0,
            info_readable = readable\<rparr>)"

text \<open>The body of \<open>if alternatives:\<close>, on the first alternative.\<close>

definition alternative_details ::
  "int \<Rightarrow> string \<Rightarrow> alternative \<Rightarrow> error + skill_details" where
  "alternative_details skill_id rarity_label alt =
     (let cond = or_default (condition alt) [];
          base_duration = or_default (baseDuration alt) 0;
          effs = or_default (effects alt) []
      in bind (parse_condition cond) (\<lambda>readable.
         bind (if base_duration \<noteq> 0
               then bind (py_truediv base_duration 1000)
                      (\<lambda>q. Inr (Some base_duration, Some (format_f 1 q @ ''s'')))
               else Inr (None, None)) (\<lambda>(dur_ms, dur_text).
         bind (map_err effect_info_of effs) (\<lambda>infos.
           let skill_type =
                 (case get_skill_type skill_id effs of
                    Some t \<Rightarrow> t
                  | None \<Rightarrow> if rarity_label = ''Gold'' then ''gold''
                            else if rarity_label = ''Unique'' then ''unique''
                            else ''white'')
           in Inr \<lparr>d_rarity = rarity_label,
                   d_condition = Some cond,
                   d_condition_readable = Some readable,
                   d_duration_base_ms = dur_ms,
                   d_duration_per_1000m = dur_text,
                   d_effects = Some infos,
                   d_skill_type = Some skill_type,
                   d_summary = Some (readable @ '' '' @ arrow @ '' '' @
                                     join '', '' (map info_readable infos))\<rparr>))))"

definition entry_empty :: "skill_entry \<Rightarrow> bool" where
  "entry_empty en = (rarity en = None \<and> alternatives en = None \<and> \<not> other_keys en)"

definition get_skill_details :: "tables \<Rightarrow> int \<Rightarrow> error + skill_details option" where
  "get_skill_details data skill_id =
     (case skill_data data (str_int skill_id) of
        None \<Rightarrow> Inr None
      | Some skill_entry \<Rightarrow>
          if entry_empty skill_entry then Inr None
          else
            let r = or_default (rarity skill_entry) 0;
                rarity_label = get_default rarity_names r (''Rarity '' @ str_int r)
            in (case or_default (alternatives skill_entry) [] of
                  [] \<Rightarrow> Inr (Some \<lparr>d_rarity = rarity_label, d_condition = None,
                          d_condition_readable = None, d_duration_base_ms = None,
                          d_duration_per_1000m = None, d_effects = None,
                          d_skill_type = None, d_summary = None\<rparr>)
                | alt # _ \<Rightarrow>
                    bind (alternative_details skill_id rarity_label alt) (\<lambda>d. Inr (Some d))))"

section \<open>Name resolvers\<close>

definition get_skill_name :: "tables \<Rightarrow> int \<Rightarrow> string option" where
  "get_skill_name data skill_id =
     (let skill_id_str = str_int skill_id
      in case skills_global data skill_id_str of
           Some (n # _) \<Rightarrow> Some n
         | _ \<Rightarrow> (case skills_jp data skill_id_str of
                   Some (_ # en # _) \<Rightarrow> Some en
                 | _ \<Rightarrow> None))"

text \<open>\<open>if name:\<close> on a value that is a string or None.\<close>

definition truthy :: "string option \<Rightarrow> bool" where
  "truthy v = (case v of None \<Rightarrow> False | Some s \<Rightarrow> s \<noteq> [])"

subsection \<open>Trait (spark) names\<close>

text \<open>
  First tier, inside \<open>10000000 <= spark_id < 20000000\<close>: the name returned there, or None
  when the code falls through to the later tiers.
\<close>

definition unique_spark_name :: "tables \<Rightarrow> int \<Rightarrow> error + string option" where
  "unique_spark_name data spark_id =
     (let spark_str = str_int spark_id
      in if length spark_str = 8 then
           bind (py_int (take 3 (drop 2 spark_str))) (\<lambda>middle.
           bind (py_int [spark_str ! 5]) (\<lambda>variant.
             let skill_id = (if variant = 2 then 110001 + middle else 100001 + middle);
                 skill_name = get_skill_name data skill_id
             in Inr (if truthy skill_name then skill_name else None)))
         else Inr None)"

definition candidate_rarity :: "tables \<Rightarrow> int \<Rightarrow> int option" where
  "candidate_rarity data candidate_id =
     (case skill_data data (str_int candidate_id) of None \<Rightarrow> None | Some en \<Rightarrow> rarity en)"

text \<open>
  The first loop of the second tier over the remaining digits: the name it returns, or None
  when it ends by \<open>break\<close> or by exhaustion.
\<close>

fun white_scan :: "tables \<Rightarrow> int \<Rightarrow> int list \<Rightarrow> string option" where
  "white_scan data group_base [] = None"
| "white_scan data group_base (digit # digits) =
     (if candidate_rarity data (group_base + digit) = Some 1
      then (let nm = get_skill_name data (group_base + digit)
            in if truthy nm then nm else None)
      else white_scan data group_base digits)"

text \<open>The fallback loop of the second tier.\<close>

fun any_scan :: "tables \<Rightarrow> int \<Rightarrow> int list \<Rightarrow> string option" where
  "any_scan data group_base [] = None"
| "any_scan data group_base (digit # digits) =
     (let nm = get_skill_name data (group_base + digit)
      in if truthy nm then nm else any_scan data group_base digits)"

definition skill_spark_name :: "tables \<Rightarrow> int \<Rightarrow> string option" where
  "skill_spark_name data spark_id =
     (let group_base = (spark_id div 100) * 10
      in case white_scan data group_base [1..9] of
           Some nm \<Rightarrow> Some nm
         | None \<Rightarrow> any_scan data group_base [1..9])"

definition race_spark_name :: "tables \<Rightarrow> int \<Rightarrow> string option" where
  "race_spark_name data spark_id =
     (let race_program_id = spark_id div 100;
          text_race_id = 1000 + race_program_id mod 1000;
          race_name = racenames data (str_int text_race_id)
      in if truthy race_name then race_name else None)"

definition get_spark_name :: "tables \<Rightarrow> int \<Rightarrow> error + string option" where
  "get_spark_name data spark_id =
     bind (if 10000000 \<le> spark_id \<and> spark_id < 20000000
           then unique_spark_name data spark_id else Inr None) (\<lambda>unique_name.
       if unique_name \<noteq> None then Inr unique_name
       else
         let skill_name = (if 2000000 \<le> spark_id \<and> spark_id < 3000000
                           then skill_spark_name data spark_id else None)
         in if skill_name \<noteq> None then Inr skill_name
            else
              let race_name = (if 1000000 \<le> spark_id \<and> spark_id < 10000000
                               then race_spark_name data spark_id else None)
              in if race_name \<noteq> None then Inr race_name
                 else
                   let spark_name = sparknames data (str_int spark_id)
                   in Inr (if truthy spark_name then spark_name else None))"

subsection \<open>Single-table lookups\<close>

definition SUPPORT_CARD_TYPES :: "char \<rightharpoonup> string" where
  "SUPPORT_CARD_TYPES = [CHR ''1'' \<mapsto> ''Speed'', CHR ''2'' \<mapsto> ''Stamina'', CHR ''3'' \<mapsto> ''Power'',
     CHR ''4'' \<mapsto> ''Guts'', CHR ''5'' \<mapsto> ''Wit'', CHR ''6'' \<mapsto> ''Friend'', CHR ''7'' \<mapsto> ''Group'']"

definition get_race_title_name :: "tables \<Rightarrow> int \<Rightarrow> string option" where
  "get_race_title_name data saddle_id = racetitles data (str_int saddle_id)"

definition get_nickname_name :: "tables \<Rightarrow> int \<Rightarrow> string option" where
  "get_nickname_name data nickname_id = nicknames data (str_int nickname_id)"

definition get_race_cloth_name :: "tables \<Rightarrow> int \<Rightarrow> string option" where
  "get_race_cloth_name data race_cloth_id = outfitnames data (str_int race_cloth_id)"

record support_card_info =
  support_card_name_en :: "string option"
  support_card_title_en :: "string option"
  support_card_chara_en :: "string option"
  support_card_type :: "string option"

definition get_support_card_info :: "tables \<Rightarrow> int \<Rightarrow> support_card_info" where
  "get_support_card_info data support_card_id =
     (let sid_str = str_int support_card_id;
          entry = or_default (supportcardnames data sid_str)
                    \<lparr>sc_name = None, sc_title = None, sc_chara = None\<rparr>
      in \<lparr>support_card_name_en = sc_name entry,
          support_card_title_en = sc_title entry,
          support_card_chara_en = sc_chara entry,
          support_card_type = (case sid_str of [] \<Rightarrow> None | c # _ \<Rightarrow> SUPPORT_CARD_TYPES c)\<rparr>)"

subsection \<open>Character and outfit names\<close>

record chara_info =
  chara_name_en :: "string option"
  costume_name_en :: "string option"
  card_name_en :: "string option"

text \<open>\<open>names[1] if len(names) > 1 and names[1] else names[0]\<close>\<close>

definition pick_name :: "string list \<Rightarrow> error + string" where
  "pick_name names =
     (if 1 < length names \<and> names ! 1 \<noteq> [] then Inr (names ! 1)
      else (case names of [] \<Rightarrow> Inl IndexError | n # _ \<Rightarrow> Inr n))"

definition get_chara_info :: "tables \<Rightarrow> int \<Rightarrow> error + chara_info" where
  "get_chara_info data card_id =
     (let chara_id = str_int (card_id div 100);
          card_id_str = str_int card_id;
          empty = \<lparr>chara_name_en = None, costume_name_en = None, card_name_en = None\<rparr>
      in bind (case umas_global data chara_id of
                 None \<Rightarrow> Inr empty
               | Some uma \<Rightarrow>
                   bind (pick_name (or_default (name uma) ['''', ''''])) (\<lambda>nm.
                     (case or_default (outfits uma) Map.empty card_id_str of
                        None \<Rightarrow> Inr (empty\<lparr>chara_name_en := Some nm\<rparr>)
                      | Some label \<Rightarrow>
                          Inr \<lparr>chara_name_en = Some nm, costume_name_en = Some label,
                               card_name_en = Some (label @ '' '' @ nm)\<rparr>))) (\<lambda>result.
           if chara_name_en result = None then
             (case umas_full data chara_id of
                None \<Rightarrow> Inr result
              | Some uma \<Rightarrow>
                  bind (pick_name (or_default (name uma) ['''', ''''])) (\<lambda>nm.
                    (case or_default (outfits uma) Map.empty card_id_str of
                       None \<Rightarrow> Inr (result\<lparr>chara_name_en := Some nm\<rparr>)
                     | Some label \<Rightarrow>
                         if costume_name_en result = None
                         then Inr \<lparr>chara_name_en = Some nm, costume_name_en = Some label,
                                   card_name_en = Some (label @ '' '' @ nm)\<rparr>
                         else Inr (result\<lparr>chara_name_en := Some nm\<rparr>))))
           else Inr result))"

section \<open>Enrichment orchestrator\<close>

text \<open>\<open>int(str(spark_id)[-2:])\<close>\<close>

definition star_level_of :: "int \<Rightarrow> error + int" where
  "star_level_of spark_id =
     (let s = str_int spark_id in py_int (drop (length s - 2) s))"

text \<open>
  A character record is a JSON object; the model keeps the keys \<open>enrich_character\<close> reads
  or writes. A key the code writes with the result of \<open>dict.get\<close> can hold Python's None,
  which \<open>json.dump\<close> writes as null: such a key is absent (\<open>None\<close>), null (\<open>Some Null\<close>) or
  bound to a value (\<open>Some (Val v)\<close>). The in-place mutation of the source is the record
  returned; an exception leaves no record.
\<close>

datatype 'a nullable = Null | Val 'a

definition dict_get :: "'a option \<Rightarrow> 'a nullable" where
  "dict_get v = (case v of None \<Rightarrow> Null | Some x \<Rightarrow> Val x)"

record skill =
  skill_id :: "int option"
  skill_name_en :: "string option"
  sk_rarity :: "string nullable option"
  sk_skill_type :: "string nullable option"
  sk_condition :: "string nullable option"
  sk_effects :: "effect_info list option"
  sk_duration :: "string nullable option"
  sk_summary :: "string nullable option"

record spark_entry =
  spark_id :: int
  spark_name_en :: "string option"
  stars :: "int option"

record factor_info =
  factor_id :: "int option"
  fi_spark_name_en :: "string option"
  fi_stars :: "int option"

record win_entry =
  saddle_id :: int
  race_name_en :: "string option"

record nick_entry =
  nickname_id :: int
  nickname_name_en :: "string option"

record support =
  support_card_id :: "int option"
  su_name_en :: "string option"
  su_title_en :: "string option"
  su_chara_en :: "string option"
  su_type :: "string option"

record parent =
  p_card_id :: "int option"
  p_factor_info_array :: "factor_info list"
  p_chara_name_en :: "string option"
  p_costume_name_en :: "string option"
  p_card_name_en :: "string option"

record character =
  card_id :: "int option"
  race_cloth_id :: "int option"
  skill_array :: "skill list"
  factor_id_array :: "int list"
  factor_info_array :: "factor_info list"
  win_saddle_id_array :: "int list"
  nickname_id_array :: "int list"
  support_card_list :: "support list"
  succession_chara_array :: "parent list"
  c_chara_name_en :: "string option"
  c_costume_name_en :: "string option"
  c_card_name_en :: "string option"
  race_cloth_name_en :: "string option"
  spark_array_enriched :: "spark_entry list option"
  win_saddle_array_enriched :: "win_entry list option"
  nickname_array_enriched :: "nick_entry list option"

text \<open>\<open>d.update(info)\<close> on one key: the key is written when \<open>info\<close> has it.\<close>

definition updated :: "'a option \<Rightarrow> 'a option \<Rightarrow> 'a option" where
  "updated old new = (case new of None \<Rightarrow> old | Some v \<Rightarrow> Some v)"

definition enrich_skill :: "tables \<Rightarrow> skill \<Rightarrow> error + skill" where
  "enrich_skill data sk =
     (case skill_id sk of
        None \<Rightarrow> Inr sk
      | Some sid \<Rightarrow>
          if sid = 0 then Inr sk
          else
            let skill_name = get_skill_name data sid;
                sk1 = (if truthy skill_name then sk\<lparr>skill_name_en := skill_name\<rparr> else sk)
            in bind (get_skill_details data sid) (\<lambda>skill_details.
                 case skill_details of
                   None \<Rightarrow> Inr sk1
                 | Some d \<Rightarrow>
                     Inr (sk1\<lparr>sk_rarity := Some (Val (d_rarity d)),
                              sk_skill_type := Some (dict_get (d_skill_type d)),
                              sk_condition := Some (dict_get (d_condition_readable d)),
                              sk_effects := Some (or_default (d_effects d) []),
                              sk_duration := Some (dict_get (d_duration_per_1000m d)),
                              sk_summary := Some (dict_get (d_summary d))\<rparr>)))"

definition enrich_spark :: "tables \<Rightarrow> int \<Rightarrow> error + spark_entry" where
  "enrich_spark data sid =
     bind (get_spark_name data sid) (\<lambda>spark_name.
     bind (star_level_of sid) (\<lambda>star_level.
       Inr \<lparr>spark_id = sid,
            spark_name_en = (if truthy spark_name then spark_name else None),
            stars = (if 1 \<le> star_level \<and> star_level \<le> 3 then Some star_level else None)\<rparr>))"

definition enrich_factor_info :: "tables \<Rightarrow> factor_info \<Rightarrow> error + factor_info" where
  "enrich_factor_info data fi =
     (case factor_id fi of
        None \<Rightarrow> Inr fi
      | Some sid \<Rightarrow>
          if sid = 0 then Inr fi
          else bind (get_spark_name data sid) (\<lambda>spark_name.
                 Inr (if truthy spark_name then fi\<lparr>fi_spark_name_en := spark_name\<rparr> else fi)))"

definition enrich_win :: "tables \<Rightarrow> int \<Rightarrow> win_entry" where
  "enrich_win data sid =
     (let race_name = get_race_title_name data sid
      in \<lparr>saddle_id = sid, race_name_en = (if truthy race_name then race_name else None)\<rparr>)"

definition enrich_nickname :: "tables \<Rightarrow> int \<Rightarrow> nick_entry" where
  "enrich_nickname data nid =
     (let nick_name = get_nickname_name data nid
      in \<lparr>nickname_id = nid, nickname_name_en = (if truthy nick_name then nick_name else None)\<rparr>)"

definition enrich_support :: "tables \<Rightarrow> support \<Rightarrow> support" where
  "enrich_support data su =
     (case support_card_id su of
        None \<Rightarrow> su
      | Some sid \<Rightarrow>
          if sid = 0 then su
          else
            let support_info = get_support_card_info data sid
            in su\<lparr>su_name_en := updated (su_name_en su) (support_card_name_en support_info),
                  su_title_en := updated (su_title_en su) (support_card_title_en support_info),
                  su_chara_en := updated (su_chara_en su) (support_card_chara_en support_info),
                  su_type := updated (su_type su) (support_card_type support_info)\<rparr>)"

text \<open>A spark of a parent record: the name and, unlike on the character itself, the stars.\<close>

definition enrich_parent_spark :: "tables \<Rightarrow> factor_info \<Rightarrow> error + factor_info" where
  "enrich_parent_spark data fi =
     (case factor_id fi of
        None \<Rightarrow> Inr fi
      | Some sid \<Rightarrow>
          if sid = 0 then Inr fi
          else bind (get_spark_name data sid) (\<lambda>spark_name.
               bind (star_level_of sid) (\<lambda>star_level.
                 let fi1 = (if truthy spark_name then fi\<lparr>fi_spark_name_en := spark_name\<rparr> else fi)
                 in Inr (if 1 \<le> star_level \<and> star_level \<le> 3
                         then fi1\<lparr>fi_stars := Some star_level\<rparr> else fi1))))"

definition enrich_parent :: "tables \<Rightarrow> parent \<Rightarrow> error + parent" where
  "enrich_parent data p =
     (case p_card_id p of
        None \<Rightarrow> Inr p
      | Some cid \<Rightarrow>
          if cid = 0 then Inr p
          else bind (get_chara_info data cid) (\<lambda>info.
               bind (map_err (enrich_parent_spark data) (p_factor_info_array p)) (\<lambda>sparks.
                 Inr (p\<lparr>p_chara_name_en := updated (p_chara_name_en p) (chara_name_en info),
                        p_costume_name_en := updated (p_costume_name_en p) (costume_name_en info),
                        p_card_name_en := updated (p_card_name_en p) (card_name_en info),
                        p_factor_info_array := sparks\<rparr>))))"

definition enrich_card :: "tables \<Rightarrow> character \<Rightarrow> error + character" where
  "enrich_card data char =
     (case card_id char of
        None \<Rightarrow> Inr char
      | Some cid \<Rightarrow>
          if cid = 0 then Inr char
          else bind (get_chara_info data cid) (\<lambda>info.
                 Inr (char\<lparr>c_chara_name_en := updated (c_chara_name_en char) (chara_name_en info),
                           c_costume_name_en := updated (c_costume_name_en char) (costume_name_en info),
                           c_card_name_en := updated (c_card_name_en char) (card_name_en info)\<rparr>)))"

definition enrich_cloth :: "tables \<Rightarrow> character \<Rightarrow> character" where
  "enrich_cloth data char =
     (case race_cloth_id char of
        None \<Rightarrow> char
      | Some rid \<Rightarrow>
          if rid = 0 then char
          else
            let cloth_name = get_race_cloth_name data rid
            in if truthy cloth_name then char\<lparr>race_cloth_name_en := cloth_name\<rparr> else char)"

definition enrich_character :: "character \<Rightarrow> tables \<Rightarrow> error + character" where
  "enrich_character char data =
     bind (enrich_card data char) (\<lambda>char1.
     let char2 = enrich_cloth data char1
     in bind (map_err (enrich_skill data) (skill_array char2)) (\<lambda>skills.
        bind (map_err (enrich_spark data) (factor_id_array char2)) (\<lambda>enriched_sparks.
        bind (map_err (enrich_factor_info data) (factor_info_array char2)) (\<lambda>infos.
        bind (map_err (enrich_parent data) (succession_chara_array char2)) (\<lambda>parents.
          Inr (char2\<lparr>skill_array := skills,
                     spark_array_enriched :=
                       (if enriched_sparks \<noteq> [] then Some enriched_sparks
                        else spark_array_enriched char2),
                     factor_info_array := infos,
                     win_saddle_array_enriched :=
                       (if win_saddle_id_array char2 \<noteq> []
                        then Some (map (enrich_win data) (win_saddle_id_array char2))
                        else win_saddle_array_enriched char2),
                     nickname_array_enriched :=
                       (if nickname_id_array char2 \<noteq> []
                        then Some (map (enrich_nickname data) (nickname_id_array char2))
                        else nickname_array_enriched char2),
                     support_card_list := map (enrich_support data) (support_card_list char2),
                     succession_chara_array := parents\<rparr>))))))"

section \<open>Reference points used by the theorems\<close>

text \<open>The candidates of a skill trait's group, in scan order.\<close>

definition group_candidates :: "int \<Rightarrow> int list" where
  "group_candidates sid = map (\<lambda>digit. (sid div 100) * 10 + digit) [1..9]"

text \<open>What the third and fourth tier of \<open>get_spark_name\<close> return for a trait.\<close>

definition later_tiers :: "tables \<Rightarrow> int \<Rightarrow> string option" where
  "later_tiers data sid =
     (case (if 1000000 \<le> sid \<and> sid < 10000000 then race_spark_name data sid else None) of
        Some nm \<Rightarrow> Some nm
      | None \<Rightarrow> if truthy (sparknames data (str_int sid)) then sparknames data (str_int sid)
                else None)"

text \<open>
  A skill group whose white skill 200491 has no name in either name table, while the gold
  skill 200492 of the same group has one.
\<close>

definition unnamed_white_tables :: tables where
  "unnamed_white_tables = empty_tables
     \<lparr>skills_global := [''200492'' \<mapsto> [''No Stopping Me!'']],
      skill_data := [''200491'' \<mapsto> \<lparr>rarity = Some 1, alternatives = None, other_keys = False\<rparr>,
                     ''200492'' \<mapsto> \<lparr>rarity = Some 4, alternatives = None, other_keys = False\<rparr>]\<rparr>"

text \<open>The same group with both skills named, and a unique skill for each outfit of one character.\<close>

definition named_tables :: tables where
  "named_tables = empty_tables
     \<lparr>skills_global := [''200491'' \<mapsto> [''Nimble Navigator''], ''200492'' \<mapsto> [''No Stopping Me!''],
                        ''100061'' \<mapsto> [''Triumphant Pulse''], ''110061'' \<mapsto> [''Festive Miracle'']],
      skill_data := [''200491'' \<mapsto> \<lparr>rarity = Some 1, alternatives = None, other_keys = False\<rparr>,
                     ''200492'' \<mapsto> \<lparr>rarity = Some 4, alternatives = None, other_keys = False\<rparr>]\<rparr>"

text \<open>A generic trait table that names two star levels of one stat trait differently.\<close>

definition star_named_tables :: tables where
  "star_named_tables = empty_tables \<lparr>sparknames := [''101'' \<mapsto> ''Speed'', ''102'' \<mapsto> ''Speed 2'']\<rparr>"

text \<open>
  A character known to both name sources; only the secondary source has a label for outfit
  100101.
\<close>

definition outfit_gap_tables :: tables where
  "outfit_gap_tables = empty_tables
     \<lparr>umas_global := [''1001'' \<mapsto> \<lparr>name = Some [''Supesharu Uiiku'', ''Special Week''],
                                     outfits = Some Map.empty\<rparr>],
      umas_full := [''1001'' \<mapsto> \<lparr>name = Some [''Supesharu Uiiku'', ''Special Week''],
                                   outfits = Some [''100101'' \<mapsto> ''[Special Dreamer]'']\<rparr>]\<rparr>"

text \<open>
  Skill definitions: one without alternatives, one whose only alternative has base duration
  zero, and one with two alternatives.
\<close>

definition speed_alternative :: alternative where
  "speed_alternative = \<lparr>condition = Some ''phase>=2&order_rate>=50'', baseDuration = Some 0,
     effects = Some [\<lparr>etype = Some 27, modifier = Some 3500\<rparr>]\<rparr>"

definition stat_alternative :: alternative where
  "stat_alternative = \<lparr>condition = Some ''always==1'', baseDuration = Some 24000,
     effects = Some [\<lparr>etype = Some 1, modifier = Some 40\<rparr>]\<rparr>"

definition skill_tables :: tables where
  "skill_tables = empty_tables
     \<lparr>skills_global := [''200011'' \<mapsto> [''Right-Handed'']],
      skill_data := [''200011'' \<mapsto> \<lparr>rarity = Some 1, alternatives = Some [], other_keys = False\<rparr>,
                     ''200012'' \<mapsto> \<lparr>rarity = Some 4, alternatives = Some [speed_alternative],
                                      other_keys = False\<rparr>],
      sparknames := [''101'' \<mapsto> ''Speed'']\<rparr>"

definition skill_tables_two :: tables where
  "skill_tables_two = empty_tables
     \<lparr>skill_data := [''200012'' \<mapsto> \<lparr>rarity = Some 4,
                                      alternatives = Some [speed_alternative, stat_alternative],
                                      other_keys = True\<rparr>]\<rparr>"

text \<open>One definition stored under a unique-skill id and under an ordinary skill id.\<close>

definition shared_definition_tables :: tables where
  "shared_definition_tables = empty_tables
     \<lparr>skill_data := [''100012'' \<mapsto> \<lparr>rarity = Some 1, alternatives = Some [speed_alternative],
                                      other_keys = False\<rparr>,
                     ''200012'' \<mapsto> \<lparr>rarity = Some 1, alternatives = Some [speed_alternative],
                                      other_keys = False\<rparr>]\<rparr>"

definition plain_skill :: "int \<Rightarrow> skill" where
  "plain_skill sid = \<lparr>skill_id = Some sid, skill_name_en = None, sk_rarity = None,
     sk_skill_type = None, sk_condition = None, sk_effects = None, sk_duration = None,
     sk_summary = None\<rparr>"

definition plain_character :: character where
  "plain_character = \<lparr>card_id = None, race_cloth_id = None, skill_array = [],
     factor_id_array = [], factor_info_array = [], win_saddle_id_array = [],
     nickname_id_array = [], support_card_list = [], succession_chara_array = [],
     c_chara_name_en = None, c_costume_name_en = None, c_card_name_en = None,
     race_cloth_name_en = None, spark_array_enriched = None,
     win_saddle_array_enriched = None, nickname_array_enriched = None\<rparr>"

definition sample_character :: character where
  "sample_character = plain_character
     \<lparr>skill_array := [plain_skill 200011, plain_skill 200012],
      factor_id_array := [101, 2004903],
      factor_info_array := [\<lparr>factor_id = Some 101, fi_spark_name_en = None, fi_stars = None\<rparr>]\<rparr>"

definition sample_enriched :: character where
  "sample_enriched = sample_character
     \<lparr>skill_array :=
        [\<lparr>skill_id = Some 200011, skill_name_en = Some ''Right-Handed'',
          sk_rarity = Some (Val ''White''), sk_skill_type = Some Null,
          sk_condition = Some Null, sk_effects = Some [],
          sk_duration = Some Null, sk_summary = Some Null\<rparr>,
         \<lparr>skill_id = Some 200012, skill_name_en = None,
          sk_rarity = Some (Val ''Gold''), sk_skill_type = Some (Val ''gold''),
          sk_condition = Some (Val ''Final Leg+ & Back 50%''),
          sk_effects = Some [\<lparr>info_type = 27, info_type_name = ''Target Speed +'',
                              info_modifier = 3500,
                              info_readable = ''Target Speed +0.35m/s''\<rparr>],
          sk_duration = Some Null,
          sk_summary = Some (Val (''Final Leg+ & Back 50% '' @ arrow @ '' Target Speed +0.35m/s''))\<rparr>],
      factor_info_array := [\<lparr>factor_id = Some 101, fi_spark_name_en = Some ''Speed'',
                              fi_stars = None\<rparr>],
      spark_array_enriched :=
        Some [\<lparr>spark_id = 101, spark_name_en = Some ''Speed'', stars = Some 1\<rparr>,
              \<lparr>spark_id = 2004903, spark_name_en = None, stars = Some 3\<rparr>]\<rparr>"

section \<open>Evaluation on concrete inputs\<close>

lemmas condition_eval =
  parse_condition_def render_clause_def operators_def startswith_def endswith_def strip_def
  is_space_def is_ascii_space_def py_int_def is_digit_def digit_val_def str_int_def
  str_nat.simps digit_char_def title_def replace_def is_lower_def is_upper_def to_upper_def
  to_lower_def lower_letters_def upper_letters_def get_default_def phase_names_def
  running_styles_def ground_types_def distance_types_def bind_def le_sign_def ge_sign_def
  Let_def

lemmas float_eval =
  py_truediv_def bit_length.simps scaled_ge_def round_half_even_def Let_def

lemmas format_eval =
  round_half_even_def Let_def zero_pad_def str_nat.simps digit_char_def

lemmas str_eval = str_int_def str_nat.simps digit_char_def

lemmas effect_eval =
  format_effect_def or_default_def get_default_def EFFECT_TYPES_def bind_def Let_def

section \<open>Condition parser: properties\<close>

lemma parse_condition_empty:
  "parse_condition '''' = Inr ''Always''"
  by (simp add: parse_condition_def)

lemma parse_condition_last_spurt:
  "parse_condition ''phase==2&is_lastspurt=1'' = Inr ''Final Leg & Last Spurt''"
  by (simp add: condition_eval)

lemma parse_condition_back:
  "parse_condition ''order_rate>=70'' = Inr ''Back 30%''"
  by (simp add: condition_eval)

lemma parse_condition_final_leg_back:
  "parse_condition ''phase>=2&order_rate>=50'' = Inr ''Final Leg+ & Back 50%''"
  by (simp add: condition_eval)

lemma render_terms_blank:
  "\<forall>t \<in> set ts. strip t = [] \<Longrightarrow> render_terms ts = Inr []"
  by (induction ts) auto

lemma parse_condition_no_parts:
  "\<forall>t \<in> set (split_on CHR ''&'' c). strip t = [] \<Longrightarrow> parse_condition c = Inr ''Always''"
  by (simp add: parse_condition_def render_terms_blank bind_def)

lemma parse_condition_joins:
  "c \<noteq> [] \<Longrightarrow> render_terms (split_on CHR ''&'' c) = Inr (p # ps) \<Longrightarrow>
     parse_condition c = Inr (join '' & '' (p # ps))"
  by (simp add: parse_condition_def bind_def)

text \<open>
  C7. The three examples hold (\<open>parse_condition_empty\<close>, \<open>parse_condition_last_spurt\<close>,
  \<open>parse_condition_back\<close>), the rendered clauses are joined with " & "
  (\<open>parse_condition_joins\<close>), and a condition whose terms are all blank gives "Always"
  (\<open>parse_condition_no_parts\<close>). A clause with key \<open>always\<close> is not dropped, though: the
  \<open>continue\<close> of that branch resumes the operator loop, no later operator ends the loop with
  \<open>break\<close>, and the \<open>else\<close> branch of the loop adds the title-cased term. So "always==1" is
  rendered as "Always==1", and a condition made of such clauses only does not give "Always".
\<close>

theorem parse_condition_always_clause:
  "parse_condition ''always==1'' = Inr ''Always==1'' \<and>
   parse_condition ''always==1&always==1'' = Inr ''Always==1 & Always==1''"
  by (simp add: condition_eval)

section \<open>Character and outfit names: properties\<close>

lemma get_chara_info_primary_only:
  "umas_global d (str_int (cid div 100)) = Some u \<Longrightarrow>
   pick_name (or_default (name u) ['''', '''']) = Inr nm \<Longrightarrow>
   get_chara_info d cid =
     (case or_default (outfits u) Map.empty (str_int cid) of
        None \<Rightarrow> Inr \<lparr>chara_name_en = Some nm, costume_name_en = None, card_name_en = None\<rparr>
      | Some label \<Rightarrow> Inr \<lparr>chara_name_en = Some nm, costume_name_en = Some label,
                            card_name_en = Some (label @ '' '' @ nm)\<rparr>)"
  by (simp add: get_chara_info_def bind_def Let_def split: option.splits)

text \<open>
  C3. The character identifier is \<open>card_id div 100\<close> and the English element of the name
  pair is preferred, but the secondary source is read only when the primary source has no
  entry for the character at all (\<open>get_chara_info_primary_only\<close>: once the primary source
  names the character, the result depends on the primary source alone). For card 100101,
  where the primary source names the character and has no outfit label and the secondary
  source has the label "[Special Dreamer]", the result carries no costume label.
\<close>

theorem get_chara_info_outfit_gap:
  "get_chara_info outfit_gap_tables 100101 =
     Inr \<lparr>chara_name_en = Some ''Special Week'', costume_name_en = None, card_name_en = None\<rparr>"
  by (simp add: get_chara_info_def outfit_gap_tables_def empty_tables_def str_eval
        pick_name_def or_default_def bind_def Let_def)

section \<open>Skill classification: properties\<close>

text \<open>
  C9. An effect list with a stat-buff type (1 to 5) is classified "green", whatever the
  modifiers; the classification is "blue" exactly when no effect has a stat-buff type and
  some modifier is negative.
\<close>

theorem get_skill_type_precedence:
  "((\<exists>e \<in> set effs. or_default (etype e) 0 \<in> {1, 2, 3, 4, 5}) \<longrightarrow>
      get_skill_type sid effs = Some ''green'') \<and>
   (get_skill_type sid effs = Some ''blue'' \<longleftrightarrow>
      \<not> (\<exists>e \<in> set effs. or_default (etype e) 0 \<in> {1, 2, 3, 4, 5}) \<and>
      (\<exists>e \<in> set effs. or_default (modifier e) 0 < 0))"
  by (auto simp: get_skill_type_def Let_def)

theorem get_skill_type_precedence_witness:
  "get_skill_type 200011 [\<lparr>etype = Some 9, modifier = Some (- 100)\<rparr>,
                          \<lparr>etype = Some 1, modifier = Some 40\<rparr>] = Some ''green'' \<and>
   get_skill_type 200011 [\<lparr>etype = Some 9, modifier = Some (- 100)\<rparr>] = Some ''blue''"
  using get_skill_type_precedence
          [of "[\<lparr>etype = Some 9, modifier = Some (- 100)\<rparr>, \<lparr>etype = Some 1, modifier = Some 40\<rparr>]"
              200011]
        get_skill_type_precedence [of "[\<lparr>etype = Some 9, modifier = Some (- 100)\<rparr>]" 200011]
  by (simp add: or_default_def)

section \<open>Effect formatter: properties\<close>

lemma py_truediv_2000: "py_truediv 2000 100 = Inr (PyFloat False 5629499534213120 (- 48))"
  by (simp add: float_eval)

lemma format_f_20: "format_f 0 (PyFloat False 5629499534213120 (- 48)) = ''20''"
  by (simp add: format_eval)

lemma py_truediv_12345: "py_truediv 12345 10000 = Inr (PyFloat False 5559693739988877 (- 52))"
  by (simp add: float_eval)

lemma format_f_12345: "format_f 4 (PyFloat False 5559693739988877 (- 52)) = ''1.2345''"
  by (simp add: format_eval)

lemma py_truediv_3500: "py_truediv 3500 10000 = Inr (PyFloat False 6305039478318694 (- 54))"
  by (simp add: float_eval)

lemma format_f_035: "format_f 2 (PyFloat False 6305039478318694 (- 54)) = ''0.35''"
  by (simp add: format_eval)

lemma format_effect_recover:
  "format_effect \<lparr>etype = Some 9, modifier = Some 2000\<rparr> = Inr ''Recover 20% Stamina''"
  by (simp add: effect_eval py_truediv_2000 format_f_20 del: format_f.simps)

lemma format_effect_stat:
  "format_effect \<lparr>etype = Some 1, modifier = Some 5\<rparr> = Inr ''Speed +5''"
  by (simp add: effect_eval str_eval)

lemma format_effect_accel:
  "format_effect \<lparr>etype = Some 31, modifier = Some 12345\<rparr> = Inr ''Acceleration +1.2345''"
  by (simp add: effect_eval py_truediv_12345 format_f_12345 del: format_f.simps)

lemma format_effect_speed:
  "format_effect \<lparr>etype = Some 27, modifier = Some 3500\<rparr> = Inr ''Target Speed +0.35m/s''"
  by (simp add: effect_eval py_truediv_3500 format_f_035 del: format_f.simps)

lemma format_effect_stat_types:
  "t \<in> {1, 2, 3, 4, 5} \<Longrightarrow>
     format_effect \<lparr>etype = Some t, modifier = Some m\<rparr> =
       Inr (the (EFFECT_TYPES t) @ str_int m)"
  by (auto simp: effect_eval)

lemma format_effect_recovery_type:
  "format_effect \<lparr>etype = Some 9, modifier = Some m\<rparr> =
     bind (py_truediv m 100) (\<lambda>q. Inr (''Recover '' @ format_f 0 q @ ''% Stamina''))"
  by (simp add: format_effect_def or_default_def Let_def)

lemma format_effect_speed_types:
  "t \<in> {21, 22, 27} \<Longrightarrow>
     format_effect \<lparr>etype = Some t, modifier = Some m\<rparr> =
       bind (py_truediv m 10000) (\<lambda>q. Inr (the (EFFECT_TYPES t) @ format_f 2 q @ ''m/s''))"
  by (auto simp: format_effect_def or_default_def get_default_def EFFECT_TYPES_def Let_def)

lemma format_effect_accel_type:
  "format_effect \<lparr>etype = Some 31, modifier = Some m\<rparr> =
     bind (py_truediv m 10000) (\<lambda>q. Inr (the (EFFECT_TYPES 31) @ format_f 4 q))"
  by (simp add: format_effect_def or_default_def get_default_def EFFECT_TYPES_def Let_def)

lemma format_effect_delay_type:
  "format_effect \<lparr>etype = Some 10, modifier = Some m\<rparr> = Inr (''Start Delay x'' @ str_int m)"
  by (simp add: format_effect_def or_default_def Let_def)

lemma format_effect_other_types:
  "t \<notin> {1, 2, 3, 4, 5, 9, 10, 21, 22, 27, 31} \<Longrightarrow>
     format_effect \<lparr>etype = Some t, modifier = Some m\<rparr> =
       Inr (get_default EFFECT_TYPES t (''Effect '' @ str_int t) @ '' ('' @ str_int m @ '')'')"
  by (simp add: format_effect_def or_default_def Let_def)

text \<open>
  C8. The modifier is scaled by effect type. Types 1 to 5: the label and the signed
  modifier. Type 9: the modifier divided by 100, with no decimals, as a stamina percentage.
  Types 21, 22 and 27: the modifier divided by 10000, with two decimals and the unit "m/s".
  Type 31: the modifier divided by 10000, with four decimals. Type 10: "Start Delay x" and
  the modifier. Any other type: the label and the modifier in parentheses. The divisions are
  float divisions and the decimals are those of the \<open>.Nf\<close> format. The three examples:
  (9, 2000) gives "Recover 20% Stamina", (1, 5) gives "Speed +5" and (31, 12345) gives
  "Acceleration +1.2345".
\<close>

theorem format_effect_scaling:
  "(t \<in> {1, 2, 3, 4, 5} \<longrightarrow>
      format_effect \<lparr>etype = Some t, modifier = Some m\<rparr> =
        Inr (the (EFFECT_TYPES t) @ str_int m)) \<and>
   format_effect \<lparr>etype = Some 9, modifier = Some m\<rparr> =
     bind (py_truediv m 100) (\<lambda>q. Inr (''Recover '' @ format_f 0 q @ ''% Stamina'')) \<and>
   (t \<in> {21, 22, 27} \<longrightarrow>
      format_effect \<lparr>etype = Some t, modifier = Some m\<rparr> =
        bind (py_truediv m 10000) (\<lambda>q. Inr (the (EFFECT_TYPES t) @ format_f 2 q @ ''m/s''))) \<and>
   format_effect \<lparr>etype = Some 31, modifier = Some m\<rparr> =
     bind (py_truediv m 10000) (\<lambda>q. Inr (the (EFFECT_TYPES 31) @ format_f 4 q)) \<and>
   format_effect \<lparr>etype = Some 10, modifier = Some m\<rparr> = Inr (''Start Delay x'' @ str_int m) \<and>
   (t \<notin> {1, 2, 3, 4, 5, 9, 10, 21, 22, 27, 31} \<longrightarrow>
      format_effect \<lparr>etype = Some t, modifier = Some m\<rparr> =
        Inr (get_default EFFECT_TYPES t (''Effect '' @ str_int t) @ '' ('' @ str_int m @ '')'')) \<and>
   format_effect \<lparr>etype = Some 9, modifier = Some 2000\<rparr> = Inr ''Recover 20% Stamina'' \<and>
   format_effect \<lparr>etype = Some 1, modifier = Some 5\<rparr> = Inr (the (EFFECT_TYPES 1) @ ''5'') \<and>
   format_effect \<lparr>etype = Some 31, modifier = Some 12345\<rparr> =
     Inr (the (EFFECT_TYPES 31) @ ''1.2345'')"
proof -
  have labels: "the (EFFECT_TYPES 1) = ''Speed +''" "the (EFFECT_TYPES 31) = ''Acceleration +''"
    by (simp_all add: EFFECT_TYPES_def)
  show ?thesis
    using format_effect_stat_types [of t m] format_effect_recovery_type [of m]
      format_effect_speed_types [of t m] format_effect_accel_type [of m]
      format_effect_delay_type [of m] format_effect_other_types [of t m]
      format_effect_recover format_effect_stat format_effect_accel labels
    by (intro conjI impI) simp_all
qed

theorem format_effect_scaling_witness:
  "format_effect \<lparr>etype = Some 3, modifier = Some (- 40)\<rparr> = Inr ''Power +-40'' \<and>
   format_effect \<lparr>etype = Some 27, modifier = Some 3500\<rparr> = Inr ''Target Speed +0.35m/s'' \<and>
   format_effect \<lparr>etype = Some 14, modifier = Some 7\<rparr> = Inr ''Set Start Delay (7)''"
  using format_effect_scaling [of 3 "- 40"] format_effect_scaling [of 27 3500]
    format_effect_scaling [of 14 7]
  by (simp add: EFFECT_TYPES_def get_default_def str_eval bind_def py_truediv_3500 format_f_035
        del: format_f.simps)

section \<open>Skill details: properties\<close>

lemma get_skill_details_nil:
  "skill_data d (str_int sid) = Some en \<Longrightarrow> \<not> entry_empty en \<Longrightarrow>
   or_default (alternatives en) [] = [] \<Longrightarrow>
   get_skill_details d sid =
     Inr (Some \<lparr>d_rarity = get_default rarity_names (or_default (rarity en) 0)
                              (''Rarity '' @ str_int (or_default (rarity en) 0)),
                 d_condition = None, d_condition_readable = None, d_duration_base_ms = None,
                 d_duration_per_1000m = None, d_effects = None, d_skill_type = None,
                 d_summary = None\<rparr>)"
  by (simp add: get_skill_details_def Let_def)

lemma get_skill_details_cons:
  "skill_data d (str_int sid) = Some en \<Longrightarrow> \<not> entry_empty en \<Longrightarrow>
   or_default (alternatives en) [] = alt # rest \<Longrightarrow>
   get_skill_details d sid =
     bind (alternative_details sid
             (get_default rarity_names (or_default (rarity en) 0)
                (''Rarity '' @ str_int (or_default (rarity en) 0))) alt)
       (\<lambda>details. Inr (Some details))"
  by (simp add: get_skill_details_def Let_def)

lemma skill_tables_200011:
  "skill_data skill_tables (str_int 200011) =
     Some \<lparr>rarity = Some 1, alternatives = Some [], other_keys = False\<rparr>"
  by (simp add: skill_tables_def empty_tables_def str_eval)

lemma skill_tables_200012:
  "skill_data skill_tables (str_int 200012) =
     Some \<lparr>rarity = Some 4, alternatives = Some [speed_alternative], other_keys = False\<rparr>"
  by (simp add: skill_tables_def empty_tables_def str_eval)

lemma skill_tables_two_200012:
  "skill_data skill_tables_two (str_int 200012) =
     Some \<lparr>rarity = Some 4, alternatives = Some [speed_alternative, stat_alternative],
           other_keys = True\<rparr>"
  by (simp add: skill_tables_two_def empty_tables_def str_eval)

lemma get_skill_type_200012:
  "get_skill_type 200012 [\<lparr>etype = Some 27, modifier = Some 3500\<rparr>] = None"
  by (simp add: get_skill_type_def or_default_def startswith_def str_eval Let_def)

lemma effect_info_of_speed:
  "effect_info_of \<lparr>etype = Some 27, modifier = Some 3500\<rparr> =
     Inr \<lparr>info_type = 27, info_type_name = ''Target Speed +'', info_modifier = 3500,
          info_readable = ''Target Speed +0.35m/s''\<rparr>"
  by (simp add: effect_info_of_def format_effect_speed bind_def or_default_def get_default_def
        EFFECT_TYPES_def)

lemma alternative_details_speed:
  "alternative_details 200012 ''Gold'' speed_alternative =
     Inr \<lparr>d_rarity = ''Gold'',
          d_condition = Some ''phase>=2&order_rate>=50'',
          d_condition_readable = Some ''Final Leg+ & Back 50%'',
          d_duration_base_ms = None,
          d_duration_per_1000m = None,
          d_effects = Some [\<lparr>info_type = 27, info_type_name = ''Target Speed +'',
                             info_modifier = 3500,
                             info_readable = ''Target Speed +0.35m/s''\<rparr>],
          d_skill_type = Some ''gold'',
          d_summary = Some (''Final Leg+ & Back 50% '' @ arrow @ '' Target Speed +0.35m/s'')\<rparr>"
  by (simp add: alternative_details_def speed_alternative_def or_default_def
        parse_condition_final_leg_back effect_info_of_speed get_skill_type_200012 bind_def
        Let_def)

lemma get_skill_details_200011:
  "get_skill_details skill_tables 200011 =
     Inr (Some \<lparr>d_rarity = ''White'', d_condition = None, d_condition_readable = None,
                 d_duration_base_ms = None, d_duration_per_1000m = None, d_effects = None,
                 d_skill_type = None, d_summary = None\<rparr>)"
  using get_skill_details_nil [OF skill_tables_200011]
  by (simp add: entry_empty_def or_default_def get_default_def rarity_names_def)

lemma get_skill_details_200012:
  "get_skill_details skill_tables 200012 =
     Inr (Some \<lparr>d_rarity = ''Gold'',
          d_condition = Some ''phase>=2&order_rate>=50'',
          d_condition_readable = Some ''Final Leg+ & Back 50%'',
          d_duration_base_ms = None,
          d_duration_per_1000m = None,
          d_effects = Some [\<lparr>info_type = 27, info_type_name = ''Target Speed +'',
                             info_modifier = 3500,
                             info_readable = ''Target Speed +0.35m/s''\<rparr>],
          d_skill_type = Some ''gold'',
          d_summary = Some (''Final Leg+ & Back 50% '' @ arrow @ '' Target Speed +0.35m/s'')\<rparr>)"
  using get_skill_details_cons [OF skill_tables_200012, of speed_alternative "[]"]
  by (simp add: entry_empty_def or_default_def get_default_def rarity_names_def
        alternative_details_speed bind_def)

lemma skill_details_eq_iff:
  "details = \<lparr>d_rarity = a, d_condition = b, d_condition_readable = c, d_duration_base_ms = e,
     d_duration_per_1000m = f, d_effects = g, d_skill_type = h, d_summary = i\<rparr> \<longleftrightarrow>
   d_rarity details = a \<and> d_condition details = b \<and> d_condition_readable details = c \<and>
   d_duration_base_ms details = e \<and> d_duration_per_1000m details = f \<and> d_effects details = g \<and>
   d_skill_type details = h \<and> d_summary details = i"
  by (cases details) auto

lemma map_err_Inr_iff:
  "map_err f xs = Inr ys \<longleftrightarrow> list_all2 (\<lambda>x y. f x = Inr y) xs ys"
proof (induction xs arbitrary: ys)
  case Nil
  then show ?case by auto
next
  case (Cons x xs)
  show ?case
  proof (cases ys)
    case Nil
    then show ?thesis by (auto simp: bind_def split: sum.splits)
  next
    case (Cons y ys')
    then show ?thesis using Cons.IH [of ys'] by (auto simp: bind_def split: sum.splits)
  qed
qed

lemma effect_info_of_iff:
  "effect_info_of eff = Inr info \<longleftrightarrow>
     format_effect eff = Inr (info_readable info) \<and>
     info_type info = or_default (etype eff) 0 \<and>
     info_type_name info = get_default EFFECT_TYPES (or_default (etype eff) 0) ''Unknown'' \<and>
     info_modifier info = or_default (modifier eff) 0"
  by (cases "format_effect eff") (auto simp: effect_info_of_def bind_def)

lemma alternative_details_iff:
  "alternative_details sid label alt = Inr details \<longleftrightarrow>
   (\<exists>readable infos.
      parse_condition (or_default (condition alt) []) = Inr readable \<and>
      map_err effect_info_of (or_default (effects alt) []) = Inr infos \<and>
      (if or_default (baseDuration alt) 0 = 0
       then d_duration_base_ms details = None \<and> d_duration_per_1000m details = None
       else d_duration_base_ms details = Some (or_default (baseDuration alt) 0) \<and>
            (\<exists>q. py_truediv (or_default (baseDuration alt) 0) 1000 = Inr q \<and>
                 d_duration_per_1000m details = Some (format_f 1 q @ ''s''))) \<and>
      d_rarity details = label \<and>
      d_condition details = Some (or_default (condition alt) []) \<and>
      d_condition_readable details = Some readable \<and>
      d_effects details = Some infos \<and>
      d_skill_type details =
        Some (case get_skill_type sid (or_default (effects alt) []) of
                Some t \<Rightarrow> t
              | None \<Rightarrow>
                  if d_rarity details = ''Gold'' then ''gold''
                  else if d_rarity details = ''Unique'' then ''unique'' else ''white'') \<and>
      d_summary details =
        Some (readable @ '' '' @ arrow @ '' '' @ join '', '' (map info_readable infos)))"
proof (cases "parse_condition (or_default (condition alt) [])")
  case (Inl e)
  then show ?thesis by (simp add: alternative_details_def bind_def)
next
  case readable: (Inr readable)
  show ?thesis
  proof (cases "map_err effect_info_of (or_default (effects alt) [])")
    case (Inl e)
    then show ?thesis
      using readable
      by (auto simp: alternative_details_def bind_def Let_def split: sum.splits prod.splits)
  next
    case infos: (Inr infos)
    show ?thesis
    proof (cases "or_default (baseDuration alt) 0 = 0")
      case True
      then show ?thesis
        using readable infos
        by (simp add: alternative_details_def bind_def Let_def skill_details_eq_iff
              eq_commute [of _ details]) auto
    next
      case False
      show ?thesis
      proof (cases "py_truediv (or_default (baseDuration alt) 0) 1000")
        case (Inl e)
        then show ?thesis
          using readable infos False
          by (simp add: alternative_details_def bind_def Let_def)
      next
        case (Inr q)
        then show ?thesis
          using readable infos False
          by (simp add: alternative_details_def bind_def Let_def skill_details_eq_iff
                eq_commute [of _ details]) auto
      qed
    qed
  qed
qed

text \<open>
  C10. Only the first alternative is read, and the details depend on the skill id as well.
  For a definition whose alternatives start with \<open>alt\<close>, \<open>get_skill_details\<close> returns exactly
  when the condition of \<open>alt\<close> parses, every effect of \<open>alt\<close> formats and the duration of
  \<open>alt\<close>, when not zero, divides; the result then holds the rarity label of the definition,
  the condition of \<open>alt\<close> and its readable form, the base duration of \<open>alt\<close> and its
  quotient by 1000 with one decimal (both left out when the base duration is zero), one
  entry for each effect of \<open>alt\<close>, the classification of the skill id with the effects of
  \<open>alt\<close> (by rarity label when \<open>get_skill_type\<close> gives none), and the summary made of the
  readable condition and the readable effects. So two definitions of the same skill id with
  the same rarity and the same first alternative give the same result, whatever follows
  the first alternative; and a definition with an empty alternatives list yields the rarity
  label only.
\<close>

theorem get_skill_details_first_alternative:
  "(skill_data d (str_int sid) = Some en \<and> \<not> entry_empty en \<and>
    or_default (alternatives en) [] = alt # rest \<longrightarrow>
      (get_skill_details d sid = Inr r \<longleftrightarrow>
       (\<exists>details readable infos.
         r = Some details \<and>
         parse_condition (or_default (condition alt) []) = Inr readable \<and>
         list_all2
           (\<lambda>eff info.
              format_effect eff = Inr (info_readable info) \<and>
              info_type info = or_default (etype eff) 0 \<and>
              info_type_name info =
                get_default EFFECT_TYPES (or_default (etype eff) 0) ''Unknown'' \<and>
              info_modifier info = or_default (modifier eff) 0)
           (or_default (effects alt) []) infos \<and>
         (if or_default (baseDuration alt) 0 = 0
          then d_duration_base_ms details = None \<and> d_duration_per_1000m details = None
          else d_duration_base_ms details = Some (or_default (baseDuration alt) 0) \<and>
               (\<exists>q. py_truediv (or_default (baseDuration alt) 0) 1000 = Inr q \<and>
                    d_duration_per_1000m details = Some (format_f 1 q @ ''s''))) \<and>
         d_rarity details =
           get_default rarity_names (or_default (rarity en) 0)
             (''Rarity '' @ str_int (or_default (rarity en) 0)) \<and>
         d_condition details = Some (or_default (condition alt) []) \<and>
         d_condition_readable details = Some readable \<and>
         d_effects details = Some infos \<and>
         d_skill_type details =
           Some (case get_skill_type sid (or_default (effects alt) []) of
                   Some t \<Rightarrow> t
                 | None \<Rightarrow>
                     if d_rarity details = ''Gold'' then ''gold''
                     else if d_rarity details = ''Unique'' then ''unique'' else ''white'') \<and>
         d_summary details =
           Some (readable @ '' '' @ arrow @ '' '' @ join '', '' (map info_readable infos))))) \<and>
   (skill_data d (str_int sid) = Some en \<and> skill_data d' (str_int sid) = Some en' \<and>
    \<not> entry_empty en \<and> \<not> entry_empty en' \<and>
    or_default (rarity en) 0 = or_default (rarity en') 0 \<and>
    or_default (alternatives en) [] = alt # rest \<and>
    or_default (alternatives en') [] = alt # rest' \<longrightarrow>
      get_skill_details d sid = get_skill_details d' sid) \<and>
   (skill_data d (str_int sid) = Some en \<and> \<not> entry_empty en \<and>
    or_default (alternatives en) [] = [] \<longrightarrow>
      get_skill_details d sid =
        Inr (Some \<lparr>d_rarity = get_default rarity_names (or_default (rarity en) 0)
                                 (''Rarity '' @ str_int (or_default (rarity en) 0)),
                    d_condition = None, d_condition_readable = None,
                    d_duration_base_ms = None, d_duration_per_1000m = None,
                    d_effects = None, d_skill_type = None, d_summary = None\<rparr>))"
  (is "(_ \<longrightarrow> (_ \<longleftrightarrow> ?rhs)) \<and> _ \<and> _")
proof (intro conjI impI)
  let ?label = "get_default rarity_names (or_default (rarity en) 0)
                  (''Rarity '' @ str_int (or_default (rarity en) 0))"
  assume a: "skill_data d (str_int sid) = Some en \<and> \<not> entry_empty en \<and>
    or_default (alternatives en) [] = alt # rest"
  have cons: "get_skill_details d sid =
          bind (alternative_details sid ?label alt) (\<lambda>details. Inr (Some details))"
    using a by (intro get_skill_details_cons [where rest = rest]) simp_all
  have "get_skill_details d sid = Inr r \<longleftrightarrow>
        (\<exists>details. r = Some details \<and> alternative_details sid ?label alt = Inr details)"
    by (cases "alternative_details sid ?label alt") (auto simp: cons bind_def)
  also have "\<dots> \<longleftrightarrow> ?rhs"
    unfolding alternative_details_iff map_err_Inr_iff effect_info_of_iff
    by auto
  finally show "get_skill_details d sid = Inr r \<longleftrightarrow> ?rhs" .
next
  assume a: "skill_data d (str_int sid) = Some en \<and> skill_data d' (str_int sid) = Some en' \<and>
    \<not> entry_empty en \<and> \<not> entry_empty en' \<and>
    or_default (rarity en) 0 = or_default (rarity en') 0 \<and>
    or_default (alternatives en) [] = alt # rest \<and>
    or_default (alternatives en') [] = alt # rest'"
  have "get_skill_details d sid =
          bind (alternative_details sid
                  (get_default rarity_names (or_default (rarity en) 0)
                     (''Rarity '' @ str_int (or_default (rarity en) 0))) alt)
            (\<lambda>details. Inr (Some details))"
    using a by (intro get_skill_details_cons [where rest = rest]) simp_all
  moreover have "get_skill_details d' sid =
          bind (alternative_details sid
                  (get_default rarity_names (or_default (rarity en') 0)
                     (''Rarity '' @ str_int (or_default (rarity en') 0))) alt)
            (\<lambda>details. Inr (Some details))"
    using a by (intro get_skill_details_cons [where rest = rest']) simp_all
  ultimately show "get_skill_details d sid = get_skill_details d' sid"
    using a by simp
next
  assume b: "skill_data d (str_int sid) = Some en \<and> \<not> entry_empty en \<and>
    or_default (alternatives en) [] = []"
  show "get_skill_details d sid =
        Inr (Some \<lparr>d_rarity = get_default rarity_names (or_default (rarity en) 0)
                                 (''Rarity '' @ str_int (or_default (rarity en) 0)),
                    d_condition = None, d_condition_readable = None,
                    d_duration_base_ms = None, d_duration_per_1000m = None,
                    d_effects = None, d_skill_type = None, d_summary = None\<rparr>)"
    using b by (intro get_skill_details_nil) simp_all
qed

theorem get_skill_details_first_alternative_witness:
  "get_skill_details skill_tables_two 200012 =
     Inr (Some \<lparr>d_rarity = ''Gold'',
          d_condition = Some ''phase>=2&order_rate>=50'',
          d_condition_readable = Some ''Final Leg+ & Back 50%'',
          d_duration_base_ms = None,
          d_duration_per_1000m = None,
          d_effects = Some [\<lparr>info_type = 27, info_type_name = ''Target Speed +'',
                             info_modifier = 3500,
                             info_readable = ''Target Speed +0.35m/s''\<rparr>],
          d_skill_type = Some ''gold'',
          d_summary = Some (''Final Leg+ & Back 50% '' @ arrow @ '' Target Speed +0.35m/s'')\<rparr>) \<and>
   get_skill_details skill_tables_two 200012 = get_skill_details skill_tables 200012 \<and>
   get_skill_details skill_tables 200011 =
     Inr (Some \<lparr>d_rarity = ''White'', d_condition = None, d_condition_readable = None,
                 d_duration_base_ms = None, d_duration_per_1000m = None,
                 d_effects = None, d_skill_type = None, d_summary = None\<rparr>)"
  using get_skill_details_first_alternative
          [where d = skill_tables_two and sid = 200012 and alt = speed_alternative
             and en = "\<lparr>rarity = Some 4,
                          alternatives = Some [speed_alternative, stat_alternative],
                          other_keys = True\<rparr>"
             and rest = "[stat_alternative]"
             and r = "Some \<lparr>d_rarity = ''Gold'',
          d_condition = Some ''phase>=2&order_rate>=50'',
          d_condition_readable = Some ''Final Leg+ & Back 50%'',
          d_duration_base_ms = None,
          d_duration_per_1000m = None,
          d_effects = Some [\<lparr>info_type = 27, info_type_name = ''Target Speed +'',
                             info_modifier = 3500,
                             info_readable = ''Target Speed +0.35m/s''\<rparr>],
          d_skill_type = Some ''gold'',
          d_summary = Some (''Final Leg+ & Back 50% '' @ arrow @ '' Target Speed +0.35m/s'')\<rparr>"
             and d' = skill_tables
             and en' = "\<lparr>rarity = Some 4, alternatives = Some [speed_alternative],
                           other_keys = False\<rparr>"
             and rest' = "[]"]
        get_skill_details_first_alternative
          [where d = skill_tables and sid = 200011
             and en = "\<lparr>rarity = Some 1, alternatives = Some [], other_keys = False\<rparr>"]
        skill_tables_200011 skill_tables_200012 skill_tables_two_200012
  by (auto simp: entry_empty_def or_default_def get_default_def rarity_names_def
        EFFECT_TYPES_def speed_alternative_def parse_condition_final_leg_back
        format_effect_speed get_skill_type_200012 list_all2_Cons1)

lemma shared_definition_lookup:
  "skill_data shared_definition_tables (str_int 100012) =
     Some \<lparr>rarity = Some 1, alternatives = Some [speed_alternative], other_keys = False\<rparr>"
  "skill_data shared_definition_tables (str_int 200012) =
     Some \<lparr>rarity = Some 1, alternatives = Some [speed_alternative], other_keys = False\<rparr>"
  by (simp_all add: shared_definition_tables_def empty_tables_def str_eval)

lemma get_skill_type_100012:
  "get_skill_type 100012 [\<lparr>etype = Some 27, modifier = Some 3500\<rparr>] = Some ''unique''"
  by (simp add: get_skill_type_def or_default_def startswith_def str_eval Let_def)

lemma alternative_details_shared:
  "alternative_details 100012 ''White'' speed_alternative = Inr \<lparr>d_rarity = ''White'',
          d_condition = Some ''phase>=2&order_rate>=50'',
          d_condition_readable = Some ''Final Leg+ & Back 50%'',
          d_duration_base_ms = None,
          d_duration_per_1000m = None,
          d_effects = Some [\<lparr>info_type = 27, info_type_name = ''Target Speed +'',
                             info_modifier = 3500,
                             info_readable = ''Target Speed +0.35m/s''\<rparr>],
          d_skill_type = Some ''unique'',
          d_summary = Some (''Final Leg+ & Back 50% '' @ arrow @ '' Target Speed +0.35m/s'')\<rparr>"
  "alternative_details 200012 ''White'' speed_alternative = Inr \<lparr>d_rarity = ''White'',
          d_condition = Some ''phase>=2&order_rate>=50'',
          d_condition_readable = Some ''Final Leg+ & Back 50%'',
          d_duration_base_ms = None,
          d_duration_per_1000m = None,
          d_effects = Some [\<lparr>info_type = 27, info_type_name = ''Target Speed +'',
                             info_modifier = 3500,
                             info_readable = ''Target Speed +0.35m/s''\<rparr>],
          d_skill_type = Some ''white'',
          d_summary = Some (''Final Leg+ & Back 50% '' @ arrow @ '' Target Speed +0.35m/s'')\<rparr>"
  by (simp_all add: alternative_details_def speed_alternative_def or_default_def
        parse_condition_final_leg_back effect_info_of_speed get_skill_type_200012
        get_skill_type_100012 bind_def Let_def)

text \<open>
  One definition stored under two skill ids: the rarity and the first alternative are the
  same, the classification is not.
\<close>

theorem get_skill_details_depends_on_id:
  "skill_data shared_definition_tables (str_int 100012) =
     skill_data shared_definition_tables (str_int 200012) \<and>
   get_skill_details shared_definition_tables 100012 = Inr (Some \<lparr>d_rarity = ''White'',
          d_condition = Some ''phase>=2&order_rate>=50'',
          d_condition_readable = Some ''Final Leg+ & Back 50%'',
          d_duration_base_ms = None,
          d_duration_per_1000m = None,
          d_effects = Some [\<lparr>info_type = 27, info_type_name = ''Target Speed +'',
                             info_modifier = 3500,
                             info_readable = ''Target Speed +0.35m/s''\<rparr>],
          d_skill_type = Some ''unique'',
          d_summary = Some (''Final Leg+ & Back 50% '' @ arrow @ '' Target Speed +0.35m/s'')\<rparr>) \<and>
   get_skill_details shared_definition_tables 200012 = Inr (Some \<lparr>d_rarity = ''White'',
          d_condition = Some ''phase>=2&order_rate>=50'',
          d_condition_readable = Some ''Final Leg+ & Back 50%'',
          d_duration_base_ms = None,
          d_duration_per_1000m = None,
          d_effects = Some [\<lparr>info_type = 27, info_type_name = ''Target Speed +'',
                             info_modifier = 3500,
                             info_readable = ''Target Speed +0.35m/s''\<rparr>],
          d_skill_type = Some ''white'',
          d_summary = Some (''Final Leg+ & Back 50% '' @ arrow @ '' Target Speed +0.35m/s'')\<rparr>)"
  using get_skill_details_cons [OF shared_definition_lookup(1), of speed_alternative "[]"]
    get_skill_details_cons [OF shared_definition_lookup(2), of speed_alternative "[]"]
  by (simp add: shared_definition_lookup entry_empty_def or_default_def get_default_def
        rarity_names_def alternative_details_shared bind_def)

section \<open>Enrichment: properties\<close>

lemma get_skill_name_200011:
  "get_skill_name skill_tables 200011 = Some ''Right-Handed''"
  by (simp add: get_skill_name_def skill_tables_def empty_tables_def str_eval Let_def)

lemma get_skill_name_200012:
  "get_skill_name skill_tables 200012 = None"
  by (simp add: get_skill_name_def skill_tables_def empty_tables_def str_eval Let_def)

lemma enrich_skill_200011:
  "enrich_skill skill_tables (plain_skill 200011) =
     Inr \<lparr>skill_id = Some 200011, skill_name_en = Some ''Right-Handed'',
          sk_rarity = Some (Val ''White''), sk_skill_type = Some Null,
          sk_condition = Some Null, sk_effects = Some [],
          sk_duration = Some Null, sk_summary = Some Null\<rparr>"
  by (simp add: enrich_skill_def plain_skill_def get_skill_name_200011 get_skill_details_200011
        truthy_def dict_get_def or_default_def bind_def Let_def)

lemma enrich_skill_200012:
  "enrich_skill skill_tables (plain_skill 200012) =
     Inr \<lparr>skill_id = Some 200012, skill_name_en = None,
          sk_rarity = Some (Val ''Gold''), sk_skill_type = Some (Val ''gold''),
          sk_condition = Some (Val ''Final Leg+ & Back 50%''),
          sk_effects = Some [\<lparr>info_type = 27, info_type_name = ''Target Speed +'',
                              info_modifier = 3500,
                              info_readable = ''Target Speed +0.35m/s''\<rparr>],
          sk_duration = Some Null,
          sk_summary = Some (Val (''Final Leg+ & Back 50% '' @ arrow @ '' Target Speed +0.35m/s''))\<rparr>"
  by (simp add: enrich_skill_def plain_skill_def get_skill_name_200012 get_skill_details_200012
        truthy_def dict_get_def or_default_def bind_def Let_def)

text \<open>
  C5. The derived keys of a skill are not always omitted when they cannot be resolved. A
  skill whose definition has no alternatives (200011) gets the keys \<open>skill_type\<close>,
  \<open>condition\<close>, \<open>duration\<close> and \<open>summary\<close> bound to null, and a skill whose first alternative
  has base duration zero (200012) gets \<open>duration\<close> bound to null.
\<close>

theorem enrich_character_writes_null:
  "enrich_character (plain_character\<lparr>skill_array := [plain_skill 200011, plain_skill 200012]\<rparr>)
     skill_tables =
   Inr (plain_character\<lparr>skill_array :=
     [\<lparr>skill_id = Some 200011, skill_name_en = Some ''Right-Handed'',
       sk_rarity = Some (Val ''White''), sk_skill_type = Some Null,
       sk_condition = Some Null, sk_effects = Some [],
       sk_duration = Some Null, sk_summary = Some Null\<rparr>,
      \<lparr>skill_id = Some 200012, skill_name_en = None,
       sk_rarity = Some (Val ''Gold''), sk_skill_type = Some (Val ''gold''),
       sk_condition = Some (Val ''Final Leg+ & Back 50%''),
       sk_effects = Some [\<lparr>info_type = 27, info_type_name = ''Target Speed +'',
                           info_modifier = 3500,
                           info_readable = ''Target Speed +0.35m/s''\<rparr>],
       sk_duration = Some Null,
       sk_summary = Some (Val (''Final Leg+ & Back 50% '' @ arrow @ '' Target Speed +0.35m/s''))\<rparr>]\<rparr>)"
  by (simp add: enrich_character_def enrich_card_def enrich_cloth_def plain_character_def
        enrich_skill_200011 enrich_skill_200012 bind_def Let_def)

section \<open>Enrichment: idempotence\<close>

lemma map_err_idem:
  "(\<And>x y. f x = Inr y \<Longrightarrow> f y = Inr y) \<Longrightarrow> map_err f xs = Inr ys \<Longrightarrow>
     map_err f ys = Inr ys"
proof (induction xs arbitrary: ys)
  case Nil
  then show ?case by simp
next
  case (Cons x xs)
  from Cons.prems(2) obtain y ys' where
    y: "f x = Inr y" and ys': "map_err f xs = Inr ys'" and eq: "ys = y # ys'"
    by (auto simp: bind_def split: sum.splits)
  have "f y = Inr y" using Cons.prems(1) y by blast
  moreover have "map_err f ys' = Inr ys'" using Cons.IH Cons.prems(1) ys' by blast
  ultimately show ?case by (simp add: eq bind_def)
qed

lemma updated_idem: "updated (updated old new) new = updated old new"
  by (simp add: updated_def split: option.splits)

lemma enrich_skill_idem:
  "enrich_skill d sk = Inr sk' \<Longrightarrow> enrich_skill d sk' = Inr sk'"
  by (auto simp: enrich_skill_def bind_def Let_def split: sum.splits option.splits if_splits)

lemma enrich_factor_info_idem:
  "enrich_factor_info d fi = Inr fi' \<Longrightarrow> enrich_factor_info d fi' = Inr fi'"
  by (auto simp: enrich_factor_info_def bind_def Let_def
           split: sum.splits option.splits if_splits)

lemma enrich_parent_spark_idem:
  "enrich_parent_spark d fi = Inr fi' \<Longrightarrow> enrich_parent_spark d fi' = Inr fi'"
  by (auto simp: enrich_parent_spark_def bind_def Let_def
           split: sum.splits option.splits if_splits)

lemma enrich_support_idem:
  "enrich_support d (enrich_support d su) = enrich_support d su"
  by (auto simp: enrich_support_def Let_def updated_idem split: option.splits)

lemma enrich_cloth_idem:
  "enrich_cloth d (enrich_cloth d c) = enrich_cloth d c"
  by (auto simp: enrich_cloth_def Let_def split: option.splits)

lemma enrich_parent_idem:
  assumes "enrich_parent d p = Inr p'"
  shows "enrich_parent d p' = Inr p'"
proof (cases "p_card_id p = None \<or> p_card_id p = Some 0")
  case True
  then show ?thesis using assms by (auto simp: enrich_parent_def)
next
  case False
  then obtain cid where cid: "p_card_id p = Some cid" "cid \<noteq> 0" by auto
  from assms cid obtain info sparks where
    info: "get_chara_info d cid = Inr info" and
    sparks: "map_err (enrich_parent_spark d) (p_factor_info_array p) = Inr sparks" and
    p': "p' = p\<lparr>p_chara_name_en := updated (p_chara_name_en p) (chara_name_en info),
                  p_costume_name_en := updated (p_costume_name_en p) (costume_name_en info),
                  p_card_name_en := updated (p_card_name_en p) (card_name_en info),
                  p_factor_info_array := sparks\<rparr>"
    by (auto simp: enrich_parent_def bind_def split: sum.splits)
  have again: "map_err (enrich_parent_spark d) sparks = Inr sparks"
    using map_err_idem [OF enrich_parent_spark_idem sparks] .
  show ?thesis
    by (simp add: enrich_parent_def p' cid info again bind_def updated_idem)
qed

text \<open>The card and the racing outfit of a record are read-only: enrichment keeps them.\<close>

lemma enrich_card_keeps:
  "enrich_card d c = Inr c1 \<Longrightarrow>
     card_id c1 = card_id c \<and> race_cloth_id c1 = race_cloth_id c \<and>
     skill_array c1 = skill_array c \<and> factor_id_array c1 = factor_id_array c \<and>
     factor_info_array c1 = factor_info_array c \<and>
     win_saddle_id_array c1 = win_saddle_id_array c \<and>
     nickname_id_array c1 = nickname_id_array c \<and>
     support_card_list c1 = support_card_list c \<and>
     succession_chara_array c1 = succession_chara_array c"
  by (auto simp: enrich_card_def bind_def split: sum.splits option.splits if_splits)

lemma enrich_cloth_keeps:
  "card_id (enrich_cloth d c) = card_id c \<and> race_cloth_id (enrich_cloth d c) = race_cloth_id c \<and>
   skill_array (enrich_cloth d c) = skill_array c \<and>
   factor_id_array (enrich_cloth d c) = factor_id_array c \<and>
   factor_info_array (enrich_cloth d c) = factor_info_array c \<and>
   win_saddle_id_array (enrich_cloth d c) = win_saddle_id_array c \<and>
   nickname_id_array (enrich_cloth d c) = nickname_id_array c \<and>
   support_card_list (enrich_cloth d c) = support_card_list c \<and>
   succession_chara_array (enrich_cloth d c) = succession_chara_array c \<and>
   c_chara_name_en (enrich_cloth d c) = c_chara_name_en c \<and>
   c_costume_name_en (enrich_cloth d c) = c_costume_name_en c \<and>
   c_card_name_en (enrich_cloth d c) = c_card_name_en c"
  by (auto simp: enrich_cloth_def Let_def split: option.splits)

text \<open>
  The first two steps on a record that went through them, with the later keys rewritten:
  the steps change nothing.
\<close>

lemma enrich_card_again:
  assumes "enrich_card d c = Inr c1"
  shows "enrich_card d
           (enrich_cloth d c1
              \<lparr>skill_array := sks, spark_array_enriched := sp, factor_info_array := fis,
               win_saddle_array_enriched := ws, nickname_array_enriched := ns,
               support_card_list := sus, succession_chara_array := ps\<rparr>) =
         Inr (enrich_cloth d c1
              \<lparr>skill_array := sks, spark_array_enriched := sp, factor_info_array := fis,
               win_saddle_array_enriched := ws, nickname_array_enriched := ns,
               support_card_list := sus, succession_chara_array := ps\<rparr>)"
proof (cases "card_id c = None \<or> card_id c = Some 0")
  case True
  then have "c1 = c" using assms by (auto simp: enrich_card_def)
  then show ?thesis using True enrich_cloth_keeps [of d c] by (auto simp: enrich_card_def)
next
  case False
  then obtain cid where cid: "card_id c = Some cid" "cid \<noteq> 0" by auto
  from assms cid obtain info where
    info: "get_chara_info d cid = Inr info" and
    c1: "c1 = c\<lparr>c_chara_name_en := updated (c_chara_name_en c) (chara_name_en info),
                  c_costume_name_en := updated (c_costume_name_en c) (costume_name_en info),
                  c_card_name_en := updated (c_card_name_en c) (card_name_en info)\<rparr>"
    by (auto simp: enrich_card_def bind_def split: sum.splits)
  have keeps: "card_id (enrich_cloth d c1) = Some cid"
    "c_chara_name_en (enrich_cloth d c1) = updated (c_chara_name_en c) (chara_name_en info)"
    "c_costume_name_en (enrich_cloth d c1) = updated (c_costume_name_en c) (costume_name_en info)"
    "c_card_name_en (enrich_cloth d c1) = updated (c_card_name_en c) (card_name_en info)"
    using enrich_cloth_keeps [of d c1] by (simp_all add: c1 cid)
  show ?thesis
    by (simp add: enrich_card_def keeps cid info bind_def updated_idem)
qed

lemma enrich_cloth_again:
  "enrich_cloth d
     (enrich_cloth d c1
        \<lparr>skill_array := sks, spark_array_enriched := sp, factor_info_array := fis,
         win_saddle_array_enriched := ws, nickname_array_enriched := ns,
         support_card_list := sus, succession_chara_array := ps\<rparr>) =
   enrich_cloth d c1
        \<lparr>skill_array := sks, spark_array_enriched := sp, factor_info_array := fis,
         win_saddle_array_enriched := ws, nickname_array_enriched := ns,
         support_card_list := sus, succession_chara_array := ps\<rparr>"
  by (auto simp: enrich_cloth_def Let_def split: option.splits)

text \<open>
  C2. A record that \<open>enrich_character\<close> returned is a fixed point: enriching it again with
  the same tables returns the same record, key by key. (A run that raises returns no
  record.)
\<close>

theorem enrich_character_idempotent:
  assumes "enrich_character c d = Inr c'"
  shows "enrich_character c' d = Inr c'"
proof -
  from assms obtain c1 skills sparks infos parents where
    c1: "enrich_card d c = Inr c1" and
    skills: "map_err (enrich_skill d) (skill_array (enrich_cloth d c1)) = Inr skills" and
    sparks: "map_err (enrich_spark d) (factor_id_array (enrich_cloth d c1)) = Inr sparks" and
    infos: "map_err (enrich_factor_info d) (factor_info_array (enrich_cloth d c1)) = Inr infos" and
    parents: "map_err (enrich_parent d) (succession_chara_array (enrich_cloth d c1)) = Inr parents"
    and c': "c' = enrich_cloth d c1
       \<lparr>skill_array := skills,
        spark_array_enriched :=
          (if sparks \<noteq> [] then Some sparks else spark_array_enriched (enrich_cloth d c1)),
        factor_info_array := infos,
        win_saddle_array_enriched :=
          (if win_saddle_id_array (enrich_cloth d c1) \<noteq> []
           then Some (map (enrich_win d) (win_saddle_id_array (enrich_cloth d c1)))
           else win_saddle_array_enriched (enrich_cloth d c1)),
        nickname_array_enriched :=
          (if nickname_id_array (enrich_cloth d c1) \<noteq> []
           then Some (map (enrich_nickname d) (nickname_id_array (enrich_cloth d c1)))
           else nickname_array_enriched (enrich_cloth d c1)),
        support_card_list := map (enrich_support d) (support_card_list (enrich_cloth d c1)),
        succession_chara_array := parents\<rparr>"
    by (auto simp: enrich_character_def bind_def Let_def split: sum.splits)
  have card: "enrich_card d c' = Inr c'"
    unfolding c' by (rule enrich_card_again [OF c1])
  have cloth: "enrich_cloth d c' = c'"
    unfolding c' by (rule enrich_cloth_again)
  have skills2: "map_err (enrich_skill d) (skill_array c') = Inr skills"
    using map_err_idem [OF enrich_skill_idem skills] by (simp add: c')
  have sparks2: "map_err (enrich_spark d) (factor_id_array c') = Inr sparks"
    using sparks by (simp add: c')
  have infos2: "map_err (enrich_factor_info d) (factor_info_array c') = Inr infos"
    using map_err_idem [OF enrich_factor_info_idem infos] by (simp add: c')
  have parents2: "map_err (enrich_parent d) (succession_chara_array c') = Inr parents"
    using map_err_idem [OF enrich_parent_idem parents] by (simp add: c')
  have supports: "map (enrich_support d) (support_card_list c') = support_card_list c'"
    by (simp add: c' enrich_support_idem)
  have "enrich_character c' d =
        Inr (c'\<lparr>skill_array := skills,
                 spark_array_enriched :=
                   (if sparks \<noteq> [] then Some sparks else spark_array_enriched c'),
                 factor_info_array := infos,
                 win_saddle_array_enriched :=
                   (if win_saddle_id_array c' \<noteq> []
                    then Some (map (enrich_win d) (win_saddle_id_array c'))
                    else win_saddle_array_enriched c'),
                 nickname_array_enriched :=
                   (if nickname_id_array c' \<noteq> []
                    then Some (map (enrich_nickname d) (nickname_id_array c'))
                    else nickname_array_enriched c'),
                 support_card_list := support_card_list c',
                 succession_chara_array := parents\<rparr>)"
    by (simp add: enrich_character_def card cloth skills2 sparks2 infos2 parents2 supports
          bind_def Let_def)
  also have "\<dots> = Inr c'"
    by (simp add: c')
  finally show ?thesis .
qed

lemma digits_1_9: "[1..9] = [1, 2, 3, 4, 5, 6, 7, 8, 9 :: int]"
  by (simp add: upto.simps)

lemma get_spark_name_101:
  "get_spark_name skill_tables 101 = Inr (Some ''Speed'')"
  by (simp add: get_spark_name_def skill_tables_def empty_tables_def str_eval truthy_def
        bind_def Let_def)

lemma get_spark_name_2004903:
  "get_spark_name skill_tables 2004903 = Inr None"
  by (simp add: get_spark_name_def skill_spark_name_def race_spark_name_def digits_1_9
        candidate_rarity_def get_skill_name_def skill_tables_def empty_tables_def str_eval
        truthy_def bind_def Let_def)

lemma star_level_of_101: "star_level_of 101 = Inr 1"
  by (simp add: star_level_of_def py_int_def is_ascii_space_def is_digit_def digit_val_def
        str_eval Let_def)

lemma star_level_of_2004903: "star_level_of 2004903 = Inr 3"
  by (simp add: star_level_of_def py_int_def is_ascii_space_def is_digit_def digit_val_def
        str_eval Let_def)

lemma enrich_sample_character:
  "enrich_character sample_character skill_tables = Inr sample_enriched"
  by (simp add: enrich_character_def enrich_card_def enrich_cloth_def sample_character_def
        sample_enriched_def plain_character_def enrich_skill_200011 enrich_skill_200012
        enrich_spark_def enrich_factor_info_def get_spark_name_101 get_spark_name_2004903
        star_level_of_101 star_level_of_2004903 truthy_def bind_def Let_def)

theorem enrich_character_idempotent_witness:
  "enrich_character sample_character skill_tables = Inr sample_enriched \<and>
   enrich_character sample_enriched skill_tables = Inr sample_enriched"
  using enrich_character_idempotent [of sample_character skill_tables sample_enriched]
    enrich_sample_character
  by simp

section \<open>Skill traits: properties\<close>

lemma white_scan_find:
  "white_scan d g ds =
     (case List.find (\<lambda>c. candidate_rarity d c = Some 1) (map (\<lambda>digit. g + digit) ds) of
        None \<Rightarrow> None
      | Some c \<Rightarrow> if truthy (get_skill_name d c) then get_skill_name d c else None)"
  by (induction ds) (simp_all add: Let_def)

lemma any_scan_find:
  "any_scan d g ds =
     (case List.find (\<lambda>c. truthy (get_skill_name d c)) (map (\<lambda>digit. g + digit) ds) of
        None \<Rightarrow> None
      | Some c \<Rightarrow> get_skill_name d c)"
  by (induction ds) (simp_all add: Let_def)

lemma skill_spark_name_find:
  "skill_spark_name d sid =
     (case (case List.find (\<lambda>c. candidate_rarity d c = Some 1) (group_candidates sid) of
              None \<Rightarrow> None
            | Some c \<Rightarrow> if truthy (get_skill_name d c) then get_skill_name d c else None) of
        Some nm \<Rightarrow> Some nm
      | None \<Rightarrow>
          (case List.find (\<lambda>c. truthy (get_skill_name d c)) (group_candidates sid) of
             None \<Rightarrow> None
           | Some c \<Rightarrow> get_skill_name d c))"
  unfolding skill_spark_name_def group_candidates_def white_scan_find any_scan_find Let_def
  by (simp split: option.splits)

lemma get_spark_name_skill_range:
  "2000000 \<le> sid \<Longrightarrow> sid < 3000000 \<Longrightarrow>
   get_spark_name d sid =
     Inr (case skill_spark_name d sid of Some nm \<Rightarrow> Some nm | None \<Rightarrow> later_tiers d sid)"
  by (auto simp: get_spark_name_def later_tiers_def bind_def Let_def split: option.splits)

text \<open>
  C1. For a trait in [2000000, 3000000) the candidates are \<open>group_base + 1\<close> to
  \<open>group_base + 9\<close> with \<open>group_base = (id div 100) * 10\<close>, and the first scan stops at the
  first candidate of rarity 1. When that candidate has a name, the name is returned. When
  it has none, or when the group has no candidate of rarity 1, the second scan runs: it
  returns the first name found in the group, whatever the rarity. When the group has no
  name at all the race tier and the generic table are consulted.
\<close>

theorem get_spark_name_skill_trait:
  assumes "2000000 \<le> sid" and "sid < 3000000"
  shows "get_spark_name d sid =
     Inr (let fallback =
                (case List.find (\<lambda>c. truthy (get_skill_name d c)) (group_candidates sid) of
                   Some c \<Rightarrow> get_skill_name d c
                 | None \<Rightarrow> later_tiers d sid)
          in case List.find (\<lambda>c. candidate_rarity d c = Some 1) (group_candidates sid) of
               Some c \<Rightarrow> if truthy (get_skill_name d c) then get_skill_name d c else fallback
             | None \<Rightarrow> fallback)"
proof -
  let ?white = "List.find (\<lambda>c. candidate_rarity d c = Some 1) (group_candidates sid)"
  let ?any = "List.find (\<lambda>c. truthy (get_skill_name d c)) (group_candidates sid)"
  let ?fallback = "case ?any of Some c \<Rightarrow> get_skill_name d c | None \<Rightarrow> later_tiers d sid"
  have found: "\<exists>nm. get_skill_name d c = Some nm" if "truthy (get_skill_name d c)" for c
    using that by (cases "get_skill_name d c") (simp_all add: truthy_def)
  have second:
    "(case (case ?any of None \<Rightarrow> None | Some c \<Rightarrow> get_skill_name d c) of
        Some nm \<Rightarrow> Some nm
      | None \<Rightarrow> later_tiers d sid) = ?fallback"
  proof (cases ?any)
    case None
    then show ?thesis by simp
  next
    case (Some c)
    then have "truthy (get_skill_name d c)" by (auto simp: find_Some_iff)
    then obtain nm where "get_skill_name d c = Some nm" using found by blast
    then show ?thesis using Some by simp
  qed
  have "(case skill_spark_name d sid of Some nm \<Rightarrow> Some nm | None \<Rightarrow> later_tiers d sid) =
        (case ?white of
           Some c \<Rightarrow> if truthy (get_skill_name d c) then get_skill_name d c else ?fallback
         | None \<Rightarrow> ?fallback)"
  proof (cases ?white)
    case None
    then show ?thesis using second by (simp add: skill_spark_name_find)
  next
    case (Some c)
    show ?thesis
    proof (cases "truthy (get_skill_name d c)")
      case True
      then obtain nm where "get_skill_name d c = Some nm" using found by blast
      then show ?thesis using Some True by (simp add: skill_spark_name_find)
    next
      case False
      then show ?thesis using Some second by (simp add: skill_spark_name_find)
    qed
  qed
  then show ?thesis
    by (simp add: get_spark_name_skill_range [OF assms] Let_def)
qed

lemma group_candidates_2004901:
  "group_candidates 2004901 =
     [200491, 200492, 200493, 200494, 200495, 200496, 200497, 200498, 200499]"
  by (simp add: group_candidates_def digits_1_9)

lemma named_tables_names:
  "get_skill_name named_tables 200491 = Some ''Nimble Navigator''"
  "get_skill_name named_tables 200492 = Some ''No Stopping Me!''"
  by (simp_all add: get_skill_name_def named_tables_def empty_tables_def str_eval Let_def)

lemma named_tables_rarity:
  "candidate_rarity named_tables 200491 = Some 1"
  by (simp add: candidate_rarity_def named_tables_def empty_tables_def str_eval)

theorem get_spark_name_skill_trait_witness:
  "get_spark_name named_tables 2004901 = Inr (Some ''Nimble Navigator'')"
  using get_spark_name_skill_trait [of 2004901 named_tables]
  by (simp add: group_candidates_2004901 named_tables_names named_tables_rarity truthy_def)

lemma unnamed_white_names:
  "get_skill_name unnamed_white_tables 200491 = None"
  "get_skill_name unnamed_white_tables 200492 = Some ''No Stopping Me!''"
  by (simp_all add: get_skill_name_def unnamed_white_tables_def empty_tables_def str_eval Let_def)

lemma unnamed_white_rarity:
  "candidate_rarity unnamed_white_tables 200491 = Some 1"
  "candidate_rarity unnamed_white_tables 200492 = Some 4"
  by (simp_all add: candidate_rarity_def unnamed_white_tables_def empty_tables_def str_eval)

text \<open>
  The group of trait 2004901 has a candidate of rarity 1, 200491, which has no name; the
  trait resolves to the name of 200492, of rarity 4.
\<close>

theorem get_spark_name_higher_rarity:
  "candidate_rarity unnamed_white_tables 200491 = Some 1 \<and>
   candidate_rarity unnamed_white_tables 200492 = Some 4 \<and>
   get_skill_name unnamed_white_tables 200492 = Some ''No Stopping Me!'' \<and>
   get_spark_name unnamed_white_tables 2004901 = Inr (Some ''No Stopping Me!'')"
  by (simp add: unnamed_white_rarity unnamed_white_names get_spark_name_def
        skill_spark_name_def digits_1_9 truthy_def bind_def Let_def)

section \<open>Decimal digits of an identifier\<close>

lemma str_nat_lt10: "n < 10 \<Longrightarrow> str_nat n = [digit_char n]"
  by (simp add: str_nat.simps)

lemma str_nat_ge10: "10 \<le> n \<Longrightarrow> str_nat n = str_nat (n div 10) @ [digit_char (n mod 10)]"
  by (subst str_nat.simps) simp

lemma str_nat_8:
  assumes "10000000 \<le> n" and "n < 100000000"
  shows "str_nat n =
    [digit_char (n div 10000000), digit_char (n div 1000000 mod 10),
     digit_char (n div 100000 mod 10), digit_char (n div 10000 mod 10),
     digit_char (n div 1000 mod 10), digit_char (n div 100 mod 10),
     digit_char (n div 10 mod 10), digit_char (n mod 10)]"
proof -
  have 1: "str_nat n = str_nat (n div 10) @ [digit_char (n mod 10)]"
    using assms by (intro str_nat_ge10) simp
  have 2: "str_nat (n div 10) = str_nat (n div 100) @ [digit_char (n div 10 mod 10)]"
    using assms str_nat_ge10 [of "n div 10"] by (simp add: div_mult2_eq [symmetric])
  have 3: "str_nat (n div 100) = str_nat (n div 1000) @ [digit_char (n div 100 mod 10)]"
    using assms str_nat_ge10 [of "n div 100"] by (simp add: div_mult2_eq [symmetric])
  have 4: "str_nat (n div 1000) = str_nat (n div 10000) @ [digit_char (n div 1000 mod 10)]"
    using assms str_nat_ge10 [of "n div 1000"] by (simp add: div_mult2_eq [symmetric])
  have 5: "str_nat (n div 10000) = str_nat (n div 100000) @ [digit_char (n div 10000 mod 10)]"
    using assms str_nat_ge10 [of "n div 10000"] by (simp add: div_mult2_eq [symmetric])
  have 6: "str_nat (n div 100000) = str_nat (n div 1000000) @ [digit_char (n div 100000 mod 10)]"
    using assms str_nat_ge10 [of "n div 100000"] by (simp add: div_mult2_eq [symmetric])
  have 7: "str_nat (n div 1000000) = str_nat (n div 10000000) @ [digit_char (n div 1000000 mod 10)]"
    using assms str_nat_ge10 [of "n div 1000000"] by (simp add: div_mult2_eq [symmetric])
  have 8: "str_nat (n div 10000000) = [digit_char (n div 10000000)]"
    using assms by (intro str_nat_lt10) simp
  show ?thesis by (simp add: 1 2 3 4 5 6 7 8)
qed

lemma digit_char_facts:
  assumes "n < 10"
  shows "is_digit (digit_char n)" and "digit_val (digit_char n) = n"
    and "\<not> is_ascii_space (digit_char n)" and "digit_char n \<noteq> CHR ''-''"
    and "digit_char n \<noteq> CHR ''+''" and "digit_char n \<noteq> CHR ''_''"
proof -
  have "n \<in> {0, 1, 2, 3, 4, 5, 6, 7, 8, 9}" using assms by auto
  then show "is_digit (digit_char n)" and "digit_val (digit_char n) = n"
    and "\<not> is_ascii_space (digit_char n)" and "digit_char n \<noteq> CHR ''-''"
    and "digit_char n \<noteq> CHR ''+''" and "digit_char n \<noteq> CHR ''_''"
    by (auto simp: digit_char_def is_digit_def digit_val_def is_ascii_space_def)
qed

lemma py_int_digit:
  "a < 10 \<Longrightarrow> py_int [digit_char a] = Inr (int a)"
  by (simp add: py_int_def digit_char_facts Let_def)

lemma py_int_digits3:
  "a < 10 \<Longrightarrow> b < 10 \<Longrightarrow> c < 10 \<Longrightarrow>
     py_int [digit_char a, digit_char b, digit_char c] = Inr (int (100 * a + 10 * b + c))"
  by (simp add: py_int_def digit_char_facts Let_def)

lemma middle_digits:
  "100 * (n div 100000 mod 10) + 10 * (n div 10000 mod 10) + n div 1000 mod 10 =
   n div 1000 mod (1000 :: nat)"
proof -
  define m where "m = n div 1000"
  have d: "n div 100000 = m div 100" "n div 10000 = m div 10"
    by (simp_all add: m_def div_mult2_eq [symmetric])
  have a: "m mod 1000 = 10 * (m div 10 mod 100) + m mod 10"
    using mod_mult2_eq [of m 10 100] by simp
  have b: "m div 10 mod 100 = 10 * (m div 10 div 10 mod 10) + m div 10 mod 10"
    using mod_mult2_eq [of "m div 10" 10 10] by simp
  have c: "m div 10 div 10 = m div 100"
    by (simp add: div_mult2_eq [symmetric])
  have "100 * (m div 100 mod 10) + 10 * (m div 10 mod 10) + m mod 10 = m mod 1000"
    by (simp add: a b c)
  then show ?thesis by (simp add: d m_def [symmetric])
qed

lemma int_digits:
  "0 \<le> sid \<Longrightarrow> int (nat sid div 1000 mod 1000) = sid div 1000 mod 1000"
  "0 \<le> sid \<Longrightarrow> int (nat sid div 100 mod 10) = sid div 100 mod 10"
  by (simp_all add: zdiv_int zmod_int)

section \<open>Unique-skill traits: properties\<close>

lemma unique_trait_decode:
  assumes "10000000 \<le> sid" and "sid < 20000000"
  shows "length (str_int sid) = 8"
    and "py_int (take 3 (drop 2 (str_int sid))) = Inr (sid div 1000 mod 1000)"
    and "py_int [str_int sid ! 5] = Inr (sid div 100 mod 10)"
proof -
  define n where "n = nat sid"
  have n: "10000000 \<le> n" "n < 100000000" using assms by (simp_all add: n_def)
  have str: "str_int sid = str_nat n" using assms by (simp add: str_int_def n_def)
  note s8 = str_nat_8 [OF n]
  show "length (str_int sid) = 8" by (simp add: str s8)
  have "py_int (take 3 (drop 2 (str_int sid))) =
        Inr (int (100 * (n div 100000 mod 10) + 10 * (n div 10000 mod 10) + n div 1000 mod 10))"
    by (simp add: str s8 py_int_digits3)
  also have "\<dots> = Inr (sid div 1000 mod 1000)"
    using assms by (simp only: middle_digits n_def int_digits)
  finally show "py_int (take 3 (drop 2 (str_int sid))) = Inr (sid div 1000 mod 1000)" .
  have "py_int [str_int sid ! 5] = Inr (int (n div 100 mod 10))"
    by (simp add: str s8 py_int_digit)
  also have "\<dots> = Inr (sid div 100 mod 10)"
    using assms by (simp only: n_def int_digits)
  finally show "py_int [str_int sid ! 5] = Inr (sid div 100 mod 10)" .
qed

lemma unique_spark_name_decoded:
  assumes "10000000 \<le> sid" and "sid < 20000000"
  shows "unique_spark_name d sid =
     Inr (let skill = (if sid div 100 mod 10 = 2 then 110001 + sid div 1000 mod 1000
                       else 100001 + sid div 1000 mod 1000);
              skill_name = get_skill_name d skill
          in if truthy skill_name then skill_name else None)"
  by (simp add: unique_spark_name_def unique_trait_decode [OF assms] bind_def Let_def)

text \<open>
  C6. A trait in [10000000, 20000000) has exactly 8 decimal digits. The slice of digits 3
  to 5 is read as \<open>middle\<close>, digit 6 as \<open>variant\<close>; neither conversion fails. The skill
  looked up is \<open>110001 + middle\<close> when \<open>variant\<close> is 2 and \<open>100001 + middle\<close> otherwise, and
  its name is returned when the name tables give one. When they give none the trait is
  looked up in the generic table.
\<close>

theorem get_spark_name_unique_trait:
  assumes "10000000 \<le> sid" and "sid < 20000000"
  shows "length (str_int sid) = 8 \<and>
     py_int (take 3 (drop 2 (str_int sid))) = Inr (sid div 1000 mod 1000) \<and>
     py_int [str_int sid ! 5] = Inr (sid div 100 mod 10) \<and>
     get_spark_name d sid =
       Inr (let middle = sid div 1000 mod 1000;
                variant = sid div 100 mod 10;
                skill = (if variant = 2 then 110001 + middle else 100001 + middle)
            in if truthy (get_skill_name d skill) then get_skill_name d skill
               else if truthy (sparknames d (str_int sid)) then sparknames d (str_int sid)
               else None)"
proof -
  have "get_spark_name d sid =
       Inr (let middle = sid div 1000 mod 1000;
                variant = sid div 100 mod 10;
                skill = (if variant = 2 then 110001 + middle else 100001 + middle)
            in if truthy (get_skill_name d skill) then get_skill_name d skill
               else if truthy (sparknames d (str_int sid)) then sparknames d (str_int sid)
               else None)"
    using assms
    by (auto simp: get_spark_name_def unique_spark_name_decoded [OF assms] bind_def Let_def
          truthy_def)
  then show ?thesis using unique_trait_decode [OF assms] by simp
qed

lemma named_tables_unique_names:
  "get_skill_name named_tables 100061 = Some ''Triumphant Pulse''"
  "get_skill_name named_tables 110061 = Some ''Festive Miracle''"
  by (simp_all add: get_skill_name_def named_tables_def empty_tables_def str_eval Let_def)

theorem get_spark_name_unique_trait_witness:
  "get_spark_name named_tables 10060101 = Inr (Some ''Triumphant Pulse'') \<and>
   get_spark_name named_tables 10060203 = Inr (Some ''Festive Miracle'')"
  using get_spark_name_unique_trait [of 10060101 named_tables]
    get_spark_name_unique_trait [of 10060203 named_tables]
  by (simp add: named_tables_unique_names truthy_def Let_def)

section \<open>Star levels: properties\<close>

lemma block_bounds:
  fixes a b k :: int
  assumes "a div 100 = b div 100"
  shows "(k * 100 \<le> a) = (k * 100 \<le> b)"
proof -
  have le: "(k * 100 \<le> x) = (k \<le> x div 100)" for x :: int
  proof -
    define q where "q = x div 100"
    define r where "r = x mod 100"
    have x: "x = 100 * q + r" "0 \<le> r" "r < 100" by (simp_all add: q_def r_def)
    show "(k * 100 \<le> x) = (k \<le> q)"
    proof
      assume "k * 100 \<le> x"
      then have "100 * k < 100 * q + 100" using x by linarith
      then show "k \<le> q" by linarith
    next
      assume "k \<le> q"
      then have "100 * k \<le> 100 * q" by linarith
      then show "k * 100 \<le> x" using x by linarith
    qed
  qed
  show ?thesis by (simp only: le assms)
qed

lemma block_ranges:
  fixes a b :: int
  assumes "a div 100 = b div 100"
  shows "(10000000 \<le> a) = (10000000 \<le> b)" and "(a < 20000000) = (b < 20000000)"
    and "(2000000 \<le> a) = (2000000 \<le> b)" and "(a < 3000000) = (b < 3000000)"
    and "(1000000 \<le> a) = (1000000 \<le> b)" and "(a < 10000000) = (b < 10000000)"
proof -
  note le = block_bounds [OF assms]
  show "(10000000 \<le> a) = (10000000 \<le> b)" using le [of 100000] by simp
  show "(a < 20000000) = (b < 20000000)" using le [of 200000] by auto
  show "(2000000 \<le> a) = (2000000 \<le> b)" using le [of 20000] by simp
  show "(a < 3000000) = (b < 3000000)" using le [of 30000] by auto
  show "(1000000 \<le> a) = (1000000 \<le> b)" using le [of 10000] by simp
  show "(a < 10000000) = (b < 10000000)" using le [of 100000] by auto
qed

lemma block_thousands:
  fixes a b :: int
  assumes "a div 100 = b div 100"
  shows "a div 1000 = b div 1000"
proof -
  have "a div 1000 = a div 100 div 10" "b div 1000 = b div 100 div 10"
    by (simp_all add: zdiv_zmult2_eq [symmetric])
  then show ?thesis using assms by simp
qed

lemma unique_spark_name_block:
  assumes "a div 100 = b div 100" and "10000000 \<le> a" and "a < 20000000"
  shows "unique_spark_name d a = unique_spark_name d b"
proof -
  have b: "10000000 \<le> b" "b < 20000000"
    using assms block_ranges [OF assms(1)] by simp_all
  show ?thesis
    by (simp add: unique_spark_name_decoded [OF assms(2,3)] unique_spark_name_decoded [OF b]
          assms(1) block_thousands [OF assms(1)])
qed

text \<open>The first three tiers do not read the generic table.\<close>

lemma lookups_generic:
  "get_skill_name (d\<lparr>sparknames := m\<rparr>) x = get_skill_name d x"
  "candidate_rarity (d\<lparr>sparknames := m\<rparr>) x = candidate_rarity d x"
  by (simp_all add: get_skill_name_def candidate_rarity_def Let_def
        cong: option.case_cong list.case_cong)

lemma white_scan_generic:
  "white_scan (d\<lparr>sparknames := m\<rparr>) g ds = white_scan d g ds"
  by (induction ds) (simp_all add: lookups_generic Let_def)

lemma any_scan_generic:
  "any_scan (d\<lparr>sparknames := m\<rparr>) g ds = any_scan d g ds"
  by (induction ds) (simp_all add: lookups_generic Let_def)

lemma tiers_generic:
  "unique_spark_name (d\<lparr>sparknames := m\<rparr>) x = unique_spark_name d x"
  "skill_spark_name (d\<lparr>sparknames := m\<rparr>) x = skill_spark_name d x"
  "race_spark_name (d\<lparr>sparknames := m\<rparr>) x = race_spark_name d x"
  by (simp_all add: unique_spark_name_def skill_spark_name_def race_spark_name_def
        lookups_generic white_scan_generic any_scan_generic Let_def
        cong: if_cong option.case_cong)

lemma get_spark_name_generic:
  "get_spark_name (d\<lparr>sparknames := Map.empty\<rparr>) x \<noteq> Inr None \<Longrightarrow>
     get_spark_name d x = get_spark_name (d\<lparr>sparknames := Map.empty\<rparr>) x"
  by (auto simp: get_spark_name_def tiers_generic bind_def Let_def truthy_def
           split: sum.splits if_splits)

lemma get_spark_name_block:
  assumes "a div 100 = b div 100"
    and "sparknames d (str_int a) = sparknames d (str_int b)"
  shows "get_spark_name d a = get_spark_name d b"
proof -
  note r = block_ranges [OF assms(1)]
  have u: "(if 10000000 \<le> a \<and> a < 20000000 then unique_spark_name d a else Inr None) =
           (if 10000000 \<le> b \<and> b < 20000000 then unique_spark_name d b else Inr None)"
    using unique_spark_name_block [OF assms(1), of d] r by auto
  have s: "(if 2000000 \<le> a \<and> a < 3000000 then skill_spark_name d a else None) =
           (if 2000000 \<le> b \<and> b < 3000000 then skill_spark_name d b else None)"
    using r by (simp add: skill_spark_name_def assms(1))
  have c: "(if 1000000 \<le> a \<and> a < 10000000 then race_spark_name d a else None) =
           (if 1000000 \<le> b \<and> b < 10000000 then race_spark_name d b else None)"
    using r by (simp add: race_spark_name_def assms(1))
  show ?thesis
    by (simp only: get_spark_name_def u s c assms(2))
qed

text \<open>
  C4. Two traits that differ in their final two digits only resolve to the same name when
  the generic table gives the two identifiers the same entry, and also when one of them is
  resolved without the generic table (by the unique-skill, skill or race tier). The generic
  table is keyed by the whole identifier, star level included, so nothing else holds for
  every table.
\<close>

theorem get_spark_name_star_level:
  "(a div 100 = b div 100 \<and> sparknames d (str_int a) = sparknames d (str_int b) \<longrightarrow>
      get_spark_name d a = get_spark_name d b) \<and>
   (a div 100 = b div 100 \<and> get_spark_name (d\<lparr>sparknames := Map.empty\<rparr>) a \<noteq> Inr None \<longrightarrow>
      get_spark_name d a = get_spark_name d b)"
proof (intro conjI impI)
  assume "a div 100 = b div 100 \<and> sparknames d (str_int a) = sparknames d (str_int b)"
  then show "get_spark_name d a = get_spark_name d b"
    using get_spark_name_block [of a b d] by simp
next
  let ?d = "d\<lparr>sparknames := Map.empty\<rparr>"
  assume h: "a div 100 = b div 100 \<and> get_spark_name ?d a \<noteq> Inr None"
  have same: "get_spark_name ?d a = get_spark_name ?d b"
    using h get_spark_name_block [of a b ?d] by simp
  then have "get_spark_name ?d b \<noteq> Inr None" using h by simp
  then have "get_spark_name d b = get_spark_name ?d b" by (rule get_spark_name_generic)
  moreover have "get_spark_name d a = get_spark_name ?d a"
    using h by (intro get_spark_name_generic) simp
  ultimately show "get_spark_name d a = get_spark_name d b" using same by simp
qed

lemma named_tables_2004901:
  "get_spark_name (named_tables\<lparr>sparknames := Map.empty\<rparr>) 2004901 =
     Inr (Some ''Nimble Navigator'')"
  by (simp add: get_spark_name_def skill_spark_name_def digits_1_9 tiers_generic
        candidate_rarity_def get_skill_name_def named_tables_def empty_tables_def str_eval
        truthy_def bind_def Let_def)

lemma named_tables_generic: "sparknames named_tables k = None"
  by (simp add: named_tables_def empty_tables_def)

theorem get_spark_name_star_level_witness:
  "get_spark_name named_tables 10060101 = get_spark_name named_tables 10060103 \<and>
   get_spark_name named_tables 2004901 = get_spark_name named_tables 2004903"
  using get_spark_name_star_level [of 10060101 10060103 named_tables]
    get_spark_name_star_level [of 2004901 2004903 named_tables]
  by (simp add: named_tables_generic named_tables_2004901)

text \<open>
  A generic table that names two star levels of the speed trait differently: 101 and 102
  differ in their final two digits only, and resolve to different names.
\<close>

theorem get_spark_name_star_named:
  "(101 :: int) div 100 = 102 div 100 \<and>
   get_spark_name star_named_tables 101 = Inr (Some ''Speed'') \<and>
   get_spark_name star_named_tables 102 = Inr (Some ''Speed 2'')"
  by (simp add: get_spark_name_def star_named_tables_def empty_tables_def str_eval truthy_def
        bind_def Let_def)

end
